theory Spec2Isabelle
  imports Complex_Main "HOL-Library.Char_ord"
begin

section \<open>Strings\<close>

text \<open>
  A JavaScript string is modelled as an Isabelle \<open>string\<close>: the list of its code units,
  for texts whose code units are below 256 (ASCII and Latin-1). Scores are JavaScript
  numbers in the source; the model computes with exact rationals, so the rounding of
  IEEE doubles is not represented.
\<close>

definition code :: "char \<Rightarrow> nat" where
  "code c = of_char c"

text \<open>\<open>String.prototype.toLowerCase\<close>, code unit by code unit: \<open>A\<close>..\<open>Z\<close> and the
  Latin-1 capitals (0xC0..0xDE without the multiplication sign 0xD7) move up by 32.\<close>

definition toLowerChar :: "char \<Rightarrow> char" where
  "toLowerChar c =
     (if (65 \<le> code c \<and> code c \<le> 90) \<or> (192 \<le> code c \<and> code c \<le> 222 \<and> code c \<noteq> 215)
      then char_of (code c + 32) else c)"

definition toLowerCase :: "string \<Rightarrow> string" where
  "toLowerCase s = map toLowerChar s"

text \<open>\<open>String.prototype.startsWith\<close> and \<open>String.prototype.includes\<close> (named \<open>includesStr\<close> here).\<close>

fun startsWith :: "string \<Rightarrow> string \<Rightarrow> bool" where
  "startsWith s [] = True"
| "startsWith [] (k # ks) = False"
| "startsWith (c # cs) (k # ks) = (c = k \<and> startsWith cs ks)"

fun includesStr :: "string \<Rightarrow> string \<Rightarrow> bool" where
  "includesStr [] k = (k = [])"
| "includesStr (c # cs) k = (startsWith (c # cs) k \<or> includesStr cs k)"

text \<open>\<open>Array.prototype.join\<close>.\<close>

fun join :: "string \<Rightarrow> string list \<Rightarrow> string" where
  "join sep [] = []"
| "join sep [x] = x"
| "join sep (x # y # ys) = x @ sep @ join sep (y # ys)"

text \<open>\<open>new Set(xs)\<close>, read back in iteration order: insertion order, the first
  occurrence of each element kept.\<close>

fun newSet :: "string list \<Rightarrow> string list" where
  "newSet [] = []"
| "newSet (x # xs) = x # filter (\<lambda>y. y \<noteq> x) (newSet xs)"

section \<open>Regular expressions\<close>

text \<open>
  The patterns of \<open>SafetyService\<close> use literals, \<open>.\<close>, \<open>\s\<close>, \<open>\d\<close>, \<open>^\<close>, \<open>$\<close>,
  \<open>\b\<close>, alternation, \<open>*\<close>, \<open>+\<close>, \<open>?\<close> and the flags \<open>i\<close> and \<open>m\<close>. The source only
  calls \<open>RegExp.prototype.test\<close>, which asks whether some match exists, so the matcher
  computes every position at which a match of the pattern can end; the order in which a
  backtracking engine would find them does not matter.

  A position is the code unit before it (if any) and the rest of the input.
\<close>

datatype regex =
    Chr char
  | Dot
  | Space
  | Digit
  | Bol
  | Eol
  | WordB
  | Eps
  | Seq regex regex
  | Alt regex regex
  | Star regex
  | Plus regex
  | Opt regex

record flags =
  ignoreCase :: bool
  multiline :: bool

type_synonym pos = "char option \<times> string"

definition isLineTerminator :: "char \<Rightarrow> bool" where
  "isLineTerminator c = (code c = 10 \<or> code c = 13)"

definition isWhiteSpace :: "char \<Rightarrow> bool" where
  "isWhiteSpace c = ((9 \<le> code c \<and> code c \<le> 13) \<or> code c = 32 \<or> code c = 160)"

definition isDigit :: "char \<Rightarrow> bool" where
  "isDigit c = (48 \<le> code c \<and> code c \<le> 57)"

definition isWordChar :: "char \<Rightarrow> bool" where
  "isWordChar c = ((97 \<le> code c \<and> code c \<le> 122) \<or> (65 \<le> code c \<and> code c \<le> 90)
                   \<or> isDigit c \<or> code c = 95)"

text \<open>Comparison of a pattern character with an input code unit; under the \<open>i\<close> flag
  both are canonicalised first. The patterns hold ASCII characters only, for which
  canonicalisation identifies exactly the two cases of a letter.\<close>

definition sameChar :: "flags \<Rightarrow> char \<Rightarrow> char \<Rightarrow> bool" where
  "sameChar f c x = (if ignoreCase f then toLowerChar c = toLowerChar x else c = x)"

definition consume :: "(char \<Rightarrow> bool) \<Rightarrow> pos \<Rightarrow> pos list" where
  "consume p q = (case snd q of [] \<Rightarrow> [] | x # xs \<Rightarrow> if p x then [(Some x, xs)] else [])"

definition assert :: "bool \<Rightarrow> pos \<Rightarrow> pos list" where
  "assert b q = (if b then [q] else [])"

definition atLineStart :: "flags \<Rightarrow> pos \<Rightarrow> bool" where
  "atLineStart f q = (case fst q of None \<Rightarrow> True | Some c \<Rightarrow> multiline f \<and> isLineTerminator c)"

definition atLineEnd :: "flags \<Rightarrow> pos \<Rightarrow> bool" where
  "atLineEnd f q = (case snd q of [] \<Rightarrow> True | x # xs \<Rightarrow> multiline f \<and> isLineTerminator x)"

definition atWordBoundary :: "pos \<Rightarrow> bool" where
  "atWordBoundary q =
     ((case fst q of None \<Rightarrow> False | Some c \<Rightarrow> isWordChar c)
      \<noteq> (case snd q of [] \<Rightarrow> False | x # xs \<Rightarrow> isWordChar x))"

text \<open>Zero or more rounds of \<open>g\<close>. A round that consumes nothing reaches no new
  position, so as many rounds as there are code units left reach everything.\<close>

fun rounds :: "nat \<Rightarrow> (pos \<Rightarrow> pos list) \<Rightarrow> pos \<Rightarrow> pos list" where
  "rounds 0 g q = [q]"
| "rounds (Suc n) g q = q # concat (map (rounds n g) (g q))"

primrec ends :: "regex \<Rightarrow> flags \<Rightarrow> pos \<Rightarrow> pos list" where
  "ends (Chr c) f q = consume (sameChar f c) q"
| "ends Dot f q = consume (\<lambda>x. \<not> isLineTerminator x) q"
| "ends Space f q = consume isWhiteSpace q"
| "ends Digit f q = consume isDigit q"
| "ends Bol f q = assert (atLineStart f q) q"
| "ends Eol f q = assert (atLineEnd f q) q"
| "ends WordB f q = assert (atWordBoundary q) q"
| "ends Eps f q = [q]"
| "ends (Seq a b) f q = concat (map (ends b f) (ends a f q))"
| "ends (Alt a b) f q = ends a f q @ ends b f q"
| "ends (Star a) f q = rounds (length (snd q)) (ends a f) q"
| "ends (Plus a) f q = concat (map (\<lambda>q'. rounds (length (snd q')) (ends a f) q') (ends a f q))"
| "ends (Opt a) f q = q # ends a f q"

fun positions :: "char option \<Rightarrow> string \<Rightarrow> pos list" where
  "positions p [] = [(p, [])]"
| "positions p (x # xs) = (p, x # xs) # positions (Some x) xs"

text \<open>\<open>pattern.test(s)\<close> for a pattern without the \<open>g\<close> flag: a match may start anywhere.\<close>

definition test :: "regex \<Rightarrow> flags \<Rightarrow> string \<Rightarrow> bool" where
  "test r f s = list_ex (\<lambda>q. ends r f q \<noteq> []) (positions None s)"

definition lit :: "string \<Rightarrow> regex" where
  "lit s = foldr (\<lambda>c r. Seq (Chr c) r) s Eps"

definition seqs :: "regex list \<Rightarrow> regex" where
  "seqs rs = foldr Seq rs Eps"

fun alts :: "regex list \<Rightarrow> regex" where
  "alts [] = Eps"
| "alts [r] = r"
| "alts (r # r' # rs) = Alt r (alts (r' # rs))"

definition flags_i :: flags where
  "flags_i = \<lparr>ignoreCase = True, multiline = False\<rparr>"

definition flags_m :: flags where
  "flags_m = \<lparr>ignoreCase = False, multiline = True\<rparr>"

section \<open>Configuration\<close>

text \<open>The fields of \<open>config\<close> (config.ts) that the safety service and the AI service
  read. They are loaded from the environment once, at start-up.\<close>

record config =
  openaiApiKey :: "string option"
  anthropicApiKey :: "string option"
  googleApiKey :: "string option"
  defaultAiProvider :: string
  openaiModel :: string
  anthropicModel :: string
  googleModel :: string
  minSafetyScore :: rat
  maxTokensPerRequest :: nat
  blockedKeywords :: "string list"
  educationalTopics :: "string list"

text \<open>The configuration of an environment that sets the three API keys and nothing
  else: every other field has the default written in config.ts.\<close>

definition defaultConfig :: config where
  "defaultConfig = \<lparr>
     openaiApiKey = Some ''sk-openai'',
     anthropicApiKey = Some ''sk-anthropic'',
     googleApiKey = Some ''sk-google'',
     defaultAiProvider = ''openai'',
     openaiModel = ''gpt-4'',
     anthropicModel = ''claude-3-sonnet-20240229'',
     googleModel = ''gemini-pro'',
     minSafetyScore = 70 / 100,
     maxTokensPerRequest = 4000,
     blockedKeywords = [''inappropriate'', ''harmful'', ''dangerous''],
     educationalTopics = [''math'', ''science'', ''literature'', ''history'', ''programming'',
       ''language'']\<rparr>"

section \<open>SafetyService\<close>

record SafetyValidation =
  isValid :: bool
  safetyScore :: rat
  issues :: "string list option"
  suggestions :: "string list option"

text \<open>The two sets built by the constructor.\<close>

definition blockedKeywordSet :: "config \<Rightarrow> string list" where
  "blockedKeywordSet cfg = newSet (map toLowerCase (blockedKeywords cfg))"

definition educationalTopicSet :: "config \<Rightarrow> string list" where
  "educationalTopicSet cfg = newSet (map toLowerCase (educationalTopics cfg))"

definition findBlockedKeywords :: "config \<Rightarrow> string \<Rightarrow> string list" where
  "findBlockedKeywords cfg content = filter (\<lambda>keyword. includesStr content keyword) (blockedKeywordSet cfg)"

definition educationalKeywords :: "string list" where
  "educationalKeywords =
    [''learn'', ''study'', ''understand'', ''explain'', ''how'', ''why'', ''what'',
     ''solve'', ''calculate'', ''define'', ''describe'', ''analyze'', ''compare'',
     ''example'', ''concept'', ''theory'', ''practice'', ''homework'', ''assignment'',
     ''question'', ''problem'', ''formula'', ''equation'', ''method'', ''step'']"

definition subjectIndicators :: "string list" where
  "subjectIndicators =
    [''equation'', ''solve'', ''calculate'', ''mathematics'', ''algebra'', ''geometry'',
     ''calculus'', ''statistics'', ''probability'', ''theorem'', ''proof'',
     ''experiment'', ''hypothesis'', ''theory'', ''molecule'', ''atom'', ''chemistry'',
     ''physics'', ''biology'', ''evolution'', ''ecosystem'', ''cell'', ''DNA'',
     ''grammar'', ''sentence'', ''paragraph'', ''essay'', ''literature'', ''poem'',
     ''metaphor'', ''symbolism'', ''character'', ''plot'', ''theme'',
     ''historical'', ''century'', ''war'', ''revolution'', ''civilization'', ''culture'',
     ''empire'', ''democracy'', ''constitution'',
     ''code'', ''function'', ''variable'', ''algorithm'', ''programming'', ''software'',
     ''debug'', ''syntax'', ''loop'', ''array'', ''object'']"

definition isEducationalContent :: "config \<Rightarrow> string \<Rightarrow> bool" where
  "isEducationalContent cfg content =
     (let hasEducationalKeywords = list_ex (\<lambda>keyword. includesStr content keyword) educationalKeywords;
          hasEducationalTopics = list_ex (\<lambda>topic. includesStr content topic) (educationalTopicSet cfg);
          hasSubjectIndicators = list_ex (\<lambda>indicator. includesStr content indicator) subjectIndicators
      in hasEducationalKeywords \<or> hasEducationalTopics \<or> hasSubjectIndicators)"

definition homeworkPatterns :: "(regex \<times> flags) list" where
  "homeworkPatterns =
    [(seqs [Bol, lit ''solve'', Plus Space, lit ''this''], flags_i),
     (seqs [Bol, lit ''answer'', Plus Space, lit ''this''], flags_i),
     (seqs [Bol, lit ''what'', Plus Space, lit ''is'', Plus Space, lit ''the'', Plus Space,
            lit ''answer'', Plus Space, lit ''to''], flags_i),
     (seqs [Bol, lit ''do'', Plus Space, lit ''my'', Plus Space, lit ''homework''], flags_i),
     (seqs [Bol, lit ''complete'', Plus Space, lit ''this'', Plus Space, lit ''for'', Plus Space,
            lit ''me''], flags_i),
     (seqs [Bol, lit ''give'', Plus Space, lit ''me'', Plus Space, lit ''the'', Plus Space,
            lit ''solution''], flags_i),
     (seqs [Bol, Plus Digit, Chr CHR ''.'', Star Space, Star Dot, Chr CHR ''?'', Star Space, Eol],
        flags_m),
     (seqs [lit ''chapter'', Plus Space, Plus Digit, Star Dot, lit ''exercise''], flags_i),
     (seqs [lit ''assignment'', Plus Space, Plus Digit], flags_i),
     (seqs [lit ''due'', Plus Space, lit ''tomorrow''], flags_i),
     (seqs [lit ''test'', Plus Space, lit ''tomorrow''], flags_i)]"

definition detectHomeworkPattern :: "string \<Rightarrow> bool" where
  "detectHomeworkPattern content = list_ex (\<lambda>(pattern, f). test pattern f content) homeworkPatterns"

definition dangerousPatterns :: "(regex \<times> flags) list" where
  "dangerousPatterns =
    [(seqs [WordB, alts [lit ''kill'', lit ''murder'', lit ''suicide'',
                         seqs [lit ''self'', Opt Dot, lit ''harm''],
                         seqs [lit ''hurt'', Star Dot, lit ''yourself'']], WordB], flags_i),
     (seqs [WordB, alts [lit ''bomb'', lit ''explosive'', lit ''weapon'', lit ''gun'', lit ''knife''],
            WordB], flags_i),
     (seqs [WordB, alts [lit ''drugs'', seqs [lit ''illegal'', Star Dot, lit ''substance''],
                         lit ''steal'', lit ''rob'', lit ''fraud''], WordB], flags_i),
     (seqs [WordB, alts [lit ''hack'', lit ''crack'', lit ''pirate'',
                         seqs [lit ''bypass'', Star Dot, lit ''security'']], WordB], flags_i),
     (seqs [WordB, alts [seqs [lit ''adult'', Star Dot, lit ''content''], lit ''sexual'',
                         lit ''explicit''], WordB], flags_i),
     (seqs [WordB, alts [seqs [lit ''home'', Star Dot, lit ''address''],
                         seqs [lit ''phone'', Star Dot, lit ''number''],
                         seqs [lit ''social'', Star Dot, lit ''security''],
                         seqs [lit ''credit'', Star Dot, lit ''card'']], WordB], flags_i)]"

definition detectDangerousContent :: "string \<Rightarrow> bool" where
  "detectDangerousContent content = list_ex (\<lambda>(pattern, f). test pattern f content) dangerousPatterns"

text \<open>The texts pushed to \<open>issues\<close> and \<open>suggestions\<close>, in the order of the five checks.\<close>

definition blockedIssue :: "string list \<Rightarrow> string" where
  "blockedIssue found = ''Contains inappropriate content: '' @ join '', '' found"

definition blockedSuggestion :: string where
  "blockedSuggestion = ''Please rephrase your question focusing on educational content.''"

definition notEducationalIssue :: string where
  "notEducationalIssue = ''Content does not appear to be educational''"

definition notEducationalSuggestion :: string where
  "notEducationalSuggestion = ''Please ask questions related to academic subjects like math, science, literature, or other learning topics.''"

definition tooLongIssue :: string where
  "tooLongIssue = ''Content is too long''"

definition tooLongSuggestion :: string where
  "tooLongSuggestion = ''Please shorten your question to be more specific.''"

definition homeworkIssue :: string where
  "homeworkIssue = ''This appears to be a homework question''"

definition homeworkSuggestion :: string where
  "homeworkSuggestion = ''Instead of asking for the answer, ask how to approach the problem or explain concepts you need help understanding.''"

definition dangerousIssue :: string where
  "dangerousIssue = ''Content may be harmful or dangerous''"

definition dangerousSuggestion :: string where
  "dangerousSuggestion = ''Please focus on safe, educational topics.''"

text \<open>\<open>validateContent\<close>. The three local variables \<open>safetyScore\<close>, \<open>issues\<close> and
  \<open>suggestions\<close> are threaded through the five checks in the source's order; \<open>check\<close>
  is one \<open>if\<close> block of the source, which lowers the score and pushes one issue and one
  suggestion.\<close>

type_synonym acc = "rat \<times> string list \<times> string list"

definition check :: "bool \<Rightarrow> rat \<Rightarrow> string \<Rightarrow> string \<Rightarrow> acc \<Rightarrow> acc" where
  "check b penalty issue suggestion a =
     (case a of (score, iss, sug) \<Rightarrow>
        if b then (score - penalty, iss @ [issue], sug @ [suggestion]) else a)"

text \<open>The end of \<open>validateContent\<close>, from \<open>Math.max\<close> on.\<close>

definition verdict :: "config \<Rightarrow> acc \<Rightarrow> SafetyValidation" where
  "verdict cfg a =
     (case a of (score, iss, sug) \<Rightarrow>
        let safetyScore = max 0 score;
            isValid = (safetyScore \<ge> minSafetyScore cfg \<and> length iss = 0)
        in \<lparr>isValid = isValid,
            safetyScore = safetyScore,
            issues = (if length iss > 0 then Some iss else None),
            suggestions = (if length sug > 0 then Some sug else None)\<rparr>)"

definition validateContent :: "config \<Rightarrow> string \<Rightarrow> SafetyValidation" where
  "validateContent cfg content =
     (let contentLower = toLowerCase content;
          a0 = (1, [], []);
          foundBlockedKeywords = findBlockedKeywords cfg contentLower;
          a1 = check (length foundBlockedKeywords > 0) (5 / 10)
                 (blockedIssue foundBlockedKeywords) blockedSuggestion a0;
          isEducational = isEducationalContent cfg contentLower;
          a2 = check (\<not> isEducational) (3 / 10) notEducationalIssue notEducationalSuggestion a1;
          a3 = check (length content > 2000) (1 / 10) tooLongIssue tooLongSuggestion a2;
          isHomeworkPattern = detectHomeworkPattern content;
          a4 = check isHomeworkPattern (2 / 10) homeworkIssue homeworkSuggestion a3;
          hasDangerousContent = detectDangerousContent contentLower;
          a5 = check hasDangerousContent (8 / 10) dangerousIssue dangerousSuggestion a4
      in verdict cfg a5)"

section \<open>AIService\<close>

text \<open>
  Exceptions are values: a function that can throw returns \<open>error + 'a\<close>, with \<open>Inl\<close> for
  the thrown value. \<open>Error m\<close> is \<open>new Error(m)\<close>, \<open>ZodError\<close> is the schema validator's
  error with the paths of the offending fields, and \<open>NonError\<close> is any thrown value that
  is not an instance of \<open>Error\<close>.
\<close>

datatype error = Error string | ZodError "string list" | NonError

record AIRequest =
  message :: string
  "context" :: "string option"
  maxTokens :: "rat option"
  temperature :: "rat option"
  provider :: "string option"

text \<open>\<open>AIResponse\<close>; its fields \<open>provider\<close> and \<open>safetyScore\<close> are named
  \<open>responseProvider\<close> and \<open>responseSafetyScore\<close> here, since record fields share one
  name space.\<close>

record AIResponse =
  content :: string
  responseProvider :: string
  model :: string
  tokens :: "nat option"
  responseSafetyScore :: rat
  processingTime :: nat

text \<open>
  The three vendor SDKs are outside the repository. A call to one of them either throws
  or returns; of what it returns the service reads the text of the first choice or
  content block and the token usage. The text is absent when OpenAI returns no choice or
  a choice without content, and when the first content block of Anthropic is not text; a
  failure inside an SDK, or while its result is read, is among the throws.
  The model takes the SDKs as a parameter: a function of the provider, the request and
  the number of the attempt, which also says how many milliseconds the call took.
\<close>

datatype sdkResult = SdkThrows error | SdkReturns "string option" "nat option"

type_synonym sdk = "string \<Rightarrow> AIRequest \<Rightarrow> nat \<Rightarrow> nat \<times> sdkResult"

text \<open>\<open>Message\<close> and \<open>ChatSession\<close> rows of the database, without the columns the
  database fills in itself (\<open>id\<close>, \<open>createdAt\<close>).\<close>

datatype role = USER | ASSISTANT | SYSTEM

record Message =
  sessionId :: string
  role :: role
  messageContent :: string
  messageProvider :: "string option"
  messageModel :: "string option"
  messageTokens :: "nat option"
  messageSafetyScore :: "rat option"
  messageProcessingTime :: "nat option"

record ChatSession =
  title :: string
  lastProvider :: string

text \<open>
  The state a request can change or observe: the clock read by \<open>Date.now()\<close>, the two
  tables, and \<open>attempts\<close>, a trace that is not in the source: the provider of every
  entry into the provider \<open>switch\<close> of \<open>generateResponse\<close>, in order. Log output is not
  modelled, and writes to the database are taken to succeed.
\<close>

record world =
  now :: nat
  attempts :: "string list"
  messages :: "Message list"
  sessions :: "string \<rightharpoonup> ChatSession"

text \<open>A client exists when its API key is set and not empty.\<close>

definition initialized :: "string option \<Rightarrow> bool" where
  "initialized key = (case key of None \<Rightarrow> False | Some k \<Rightarrow> k \<noteq> [])"

definition callSdk :: "sdk \<Rightarrow> string \<Rightarrow> AIRequest \<Rightarrow> world \<Rightarrow> sdkResult \<times> world" where
  "callSdk sdk name request w =
     (case sdk name request (length (attempts w)) of
        (elapsed, result) \<Rightarrow> (result, w\<lparr>now := now w + elapsed\<rparr>))"

definition generateOpenAIResponse ::
  "config \<Rightarrow> sdk \<Rightarrow> AIRequest \<Rightarrow> world \<Rightarrow> (error + AIResponse) \<times> world" where
  "generateOpenAIResponse cfg sdk request w =
     (if \<not> initialized (openaiApiKey cfg) then (Inl (Error ''OpenAI client not initialized''), w)
      else case callSdk sdk ''openai'' request w of
        (SdkThrows e, w') \<Rightarrow> (Inl e, w')
      | (SdkReturns text usage, w') \<Rightarrow>
          (case text of
             None \<Rightarrow> (Inl (Error ''Invalid response from OpenAI''), w')
           | Some t \<Rightarrow>
               if t = [] then (Inl (Error ''Invalid response from OpenAI''), w')
               else (Inr \<lparr>content = t, responseProvider = ''openai'', model = openaiModel cfg,
                          tokens = usage, responseSafetyScore = 9 / 10, processingTime = 0\<rparr>, w')))"

definition generateAnthropicResponse ::
  "config \<Rightarrow> sdk \<Rightarrow> AIRequest \<Rightarrow> world \<Rightarrow> (error + AIResponse) \<times> world" where
  "generateAnthropicResponse cfg sdk request w =
     (if \<not> initialized (anthropicApiKey cfg) then (Inl (Error ''Anthropic client not initialized''), w)
      else case callSdk sdk ''anthropic'' request w of
        (SdkThrows e, w') \<Rightarrow> (Inl e, w')
      | (SdkReturns text usage, w') \<Rightarrow>
          (case text of
             None \<Rightarrow> (Inl (Error ''Invalid response type from Anthropic''), w')
           | Some t \<Rightarrow>
               (Inr \<lparr>content = t, responseProvider = ''anthropic'', model = anthropicModel cfg,
                     tokens = usage, responseSafetyScore = 9 / 10, processingTime = 0\<rparr>, w')))"

definition generateGoogleResponse ::
  "config \<Rightarrow> sdk \<Rightarrow> AIRequest \<Rightarrow> world \<Rightarrow> (error + AIResponse) \<times> world" where
  "generateGoogleResponse cfg sdk request w =
     (if \<not> initialized (googleApiKey cfg) then (Inl (Error ''Google AI client not initialized''), w)
      else case callSdk sdk ''google'' request w of
        (SdkThrows e, w') \<Rightarrow> (Inl e, w')
      | (SdkReturns text usage, w') \<Rightarrow>
          (case text of
             None \<Rightarrow> (Inl (Error ''Empty response from Google AI''), w')
           | Some t \<Rightarrow>
               if t = [] then (Inl (Error ''Empty response from Google AI''), w')
               else (Inr \<lparr>content = t, responseProvider = ''google'', model = googleModel cfg,
                          tokens = None, responseSafetyScore = 9 / 10, processingTime = 0\<rparr>, w')))"

text \<open>The two texts \<open>applyEducationalContext\<close> appends. Each begins with two line feeds
  and an emoji; an emoji is two code units above 0xFF, written here as two code units
  0x80, which like them are no letter, digit, white space or line terminator.\<close>

definition learningTip :: string where
  "learningTip = [CHR 0x0A, CHR 0x0A, CHR 0x80, CHR 0x80] @
     '' **Learning Tip**: Take your time to understand each concept before moving to the next one. Feel free to ask follow-up questions if anything is unclear!''"

definition studySuggestion :: string where
  "studySuggestion = [CHR 0x0A, CHR 0x0A, CHR 0x80, CHR 0x80] @
     '' **Study Suggestion**: Try working through this example step by step. Understanding the process is more important than memorizing the result.''"

definition applyEducationalContext :: "string \<Rightarrow> string" where
  "applyEducationalContext c =
     (let c1 = (if length c > 1000 then c @ learningTip else c);
          c2 = (if includesStr c1 ''```'' \<or> includesStr c1 ''$$'' then c1 @ studySuggestion else c1)
      in c2)"

text \<open>\<open>request.provider || config.defaultAiProvider\<close>: an empty string is falsy.\<close>

definition requestedProvider :: "config \<Rightarrow> AIRequest \<Rightarrow> string" where
  "requestedProvider cfg request =
     (case provider request of
        None \<Rightarrow> defaultAiProvider cfg
      | Some p \<Rightarrow> if p = [] then defaultAiProvider cfg else p)"

text \<open>The \<open>switch\<close> of \<open>generateResponse\<close>; entering it is recorded in \<open>attempts\<close>.\<close>

definition callProvider ::
  "config \<Rightarrow> sdk \<Rightarrow> string \<Rightarrow> AIRequest \<Rightarrow> world \<Rightarrow> (error + AIResponse) \<times> world" where
  "callProvider cfg sdk p request w =
     (let w0 = w\<lparr>attempts := attempts w @ [p]\<rparr> in
      if p = ''openai'' then generateOpenAIResponse cfg sdk request w0
      else if p = ''anthropic'' then generateAnthropicResponse cfg sdk request w0
      else if p = ''google'' then generateGoogleResponse cfg sdk request w0
      else (Inl (Error (''Unknown AI provider: '' @ p)), w0))"

text \<open>What follows the \<open>switch\<close> inside the \<open>try\<close> block, given the provider's response.\<close>

definition finishResponse ::
  "config \<Rightarrow> nat \<Rightarrow> AIResponse \<Rightarrow> world \<Rightarrow> (error + AIResponse) \<times> world" where
  "finishResponse cfg startTime response w =
     (let response1 = response\<lparr>content := applyEducationalContext (content response)\<rparr>;
          responseSafetyCheck = validateContent cfg (content response1);
          response2 = response1\<lparr>responseSafetyScore := safetyScore responseSafetyCheck\<rparr>
      in if \<not> isValid responseSafetyCheck
         then (Inl (Error ''Generated response failed safety check''), w)
         else (Inr (response2\<lparr>processingTime := now w - startTime\<rparr>), w))"

text \<open>The whole \<open>try\<close> block.\<close>

definition tryBlock ::
  "config \<Rightarrow> sdk \<Rightarrow> string \<Rightarrow> AIRequest \<Rightarrow> nat \<Rightarrow> world \<Rightarrow> (error + AIResponse) \<times> world" where
  "tryBlock cfg sdk p request startTime w =
     (case callProvider cfg sdk p request w of
        (Inl e, w') \<Rightarrow> (Inl e, w')
      | (Inr response, w') \<Rightarrow> finishResponse cfg startTime response w')"

definition contentBlocked :: "SafetyValidation \<Rightarrow> error" where
  "contentBlocked safetyCheck =
     Error (''Content blocked: '' @
       (case issues safetyCheck of None \<Rightarrow> ''undefined'' | Some iss \<Rightarrow> join '', '' iss))"

text \<open>\<open>generateResponse\<close>, with its \<open>catch\<close> block and the recursive call in it.\<close>

function generateResponse ::
  "config \<Rightarrow> sdk \<Rightarrow> AIRequest \<Rightarrow> world \<Rightarrow> (error + AIResponse) \<times> world" where
  "generateResponse cfg sdk request w =
     (let startTime = now w;
          safetyCheck = validateContent cfg (message request)
      in if \<not> isValid safetyCheck then (Inl (contentBlocked safetyCheck), w)
         else
           let p = requestedProvider cfg request in
           (case tryBlock cfg sdk p request startTime w of
              (Inr response, w') \<Rightarrow> (Inr response, w')
            | (Inl e, w') \<Rightarrow>
                if p \<noteq> defaultAiProvider cfg
                then generateResponse cfg sdk (request\<lparr>provider := Some (defaultAiProvider cfg)\<rparr>) w'
                else (Inl e, w')))"
  by pat_completeness auto
termination
  by (relation "measure (\<lambda>(cfg, sdk, request, w).
        if requestedProvider cfg request = defaultAiProvider cfg then 0 else 1)")
     (auto simp: requestedProvider_def)

section \<open>ChatController\<close>

text \<open>The body of a chat request after JSON decoding; \<open>chatRequestSchema\<close> checks it.\<close>

record ChatRequest =
  bodyMessage :: string
  bodySessionId :: "string option"
  bodyProvider :: "string option"
  bodyMaxTokens :: "rat option"
  bodyTemperature :: "rat option"

definition inRange :: "rat \<Rightarrow> rat \<Rightarrow> rat option \<Rightarrow> bool" where
  "inRange lo hi x = (case x of None \<Rightarrow> True | Some v \<Rightarrow> lo \<le> v \<and> v \<le> hi)"

definition schemaIssues :: "ChatRequest \<Rightarrow> string list" where
  "schemaIssues body =
     (if 1 \<le> length (bodyMessage body) \<and> length (bodyMessage body) \<le> 2000 then [] else [''message''])
     @ (case bodyProvider body of
          None \<Rightarrow> []
        | Some p \<Rightarrow> if p \<in> set [''openai'', ''anthropic'', ''google''] then [] else [''provider''])
     @ (if inRange 1 4000 (bodyMaxTokens body) then [] else [''maxTokens''])
     @ (if inRange 0 2 (bodyTemperature body) then [] else [''temperature''])"

definition chatRequestSchema_parse :: "ChatRequest \<Rightarrow> error + ChatRequest" where
  "chatRequestSchema_parse body =
     (if schemaIssues body = [] then Inr body else Inl (ZodError (schemaIssues body)))"

record ResponseMetadata =
  metaProvider :: string
  metaModel :: string
  metaTokens :: "nat option"
  metaSafetyScore :: rat
  metaProcessingTime :: nat

text \<open>The JSON bodies \<open>sendMessage\<close> sends, without their \<open>success\<close> field, which is a
  field of the response below: the reply, the safety block (issues, suggestions,
  score), the schema error and the failure with its message.\<close>

datatype payload =
    Reply string ResponseMetadata string
  | Blocked "string list option" "string list option" rat
  | InvalidRequest "string list"
  | Failure string

record httpResponse =
  status :: nat
  success :: bool
  payload :: payload

definition trim :: "string \<Rightarrow> string" where
  "trim s = rev (dropWhile isWhiteSpace (rev (dropWhile isWhiteSpace s)))"

definition generateSessionTitle :: "string \<Rightarrow> string" where
  "generateSessionTitle firstMessage =
     (let t = take 30 (filter (\<lambda>c. isWordChar c \<or> isWhiteSpace c) (trim (take 50 firstMessage)))
      in if t = [] then ''New Chat Session'' else t)"

definition upsertSession :: "string \<Rightarrow> string \<Rightarrow> string \<Rightarrow> world \<Rightarrow> world" where
  "upsertSession sid firstMessage prov w =
     (case sessions w sid of
        Some s \<Rightarrow> w\<lparr>sessions := (sessions w)(sid \<mapsto> s\<lparr>lastProvider := prov\<rparr>)\<rparr>
      | None \<Rightarrow> w\<lparr>sessions := (sessions w)(sid \<mapsto>
                   \<lparr>title = generateSessionTitle firstMessage, lastProvider = prov\<rparr>)\<rparr>)"

text \<open>The \<open>catch\<close> block of \<open>sendMessage\<close>.\<close>

definition errorResponse :: "error \<Rightarrow> httpResponse" where
  "errorResponse e =
     (case e of
        ZodError errs \<Rightarrow> \<lparr>status = 400, success = False, payload = InvalidRequest errs\<rparr>
      | Error m \<Rightarrow> \<lparr>status = 500, success = False, payload = Failure m\<rparr>
      | NonError \<Rightarrow> \<lparr>status = 500, success = False, payload = Failure ''Internal server error''\<rparr>)"

text \<open>The object literals of \<open>sendMessage\<close>: the session identifier in use (\<open>uuid\<close>
  is what \<open>uuidv4()\<close> returns for a new session), the two rows it creates, the request
  it passes to the AI service, and the two JSON responses of the \<open>try\<close> block.\<close>

definition currentSessionIdOf :: "string \<Rightarrow> ChatRequest \<Rightarrow> string" where
  "currentSessionIdOf uuid body =
     (case bodySessionId body of
        None \<Rightarrow> uuid
      | Some sid \<Rightarrow> if sid = [] then uuid else sid)"

definition userMessage :: "string \<Rightarrow> string \<Rightarrow> SafetyValidation \<Rightarrow> Message" where
  "userMessage sid msg safetyValidation =
     \<lparr>sessionId = sid, role = USER, messageContent = msg,
      messageProvider = None, messageModel = None, messageTokens = None,
      messageSafetyScore = Some (safetyScore safetyValidation),
      messageProcessingTime = None\<rparr>"

definition assistantMessage :: "string \<Rightarrow> AIResponse \<Rightarrow> Message" where
  "assistantMessage sid aiResponse =
     \<lparr>sessionId = sid, role = ASSISTANT, messageContent = content aiResponse,
      messageProvider = Some (responseProvider aiResponse),
      messageModel = Some (model aiResponse),
      messageTokens = tokens aiResponse,
      messageSafetyScore = Some (responseSafetyScore aiResponse),
      messageProcessingTime = Some (processingTime aiResponse)\<rparr>"

definition aiRequestOf :: "ChatRequest \<Rightarrow> AIRequest" where
  "aiRequestOf body =
     \<lparr>message = bodyMessage body, context = None, maxTokens = bodyMaxTokens body,
      temperature = bodyTemperature body, provider = bodyProvider body\<rparr>"

definition blockedResponse :: "SafetyValidation \<Rightarrow> httpResponse" where
  "blockedResponse safetyValidation =
     \<lparr>status = 400, success = False,
      payload = Blocked (issues safetyValidation) (suggestions safetyValidation)
                  (safetyScore safetyValidation)\<rparr>"

definition replyResponse :: "string \<Rightarrow> AIResponse \<Rightarrow> httpResponse" where
  "replyResponse sid aiResponse =
     \<lparr>status = 200, success = True,
      payload = Reply (content aiResponse)
        \<lparr>metaProvider = responseProvider aiResponse,
         metaModel = model aiResponse,
         metaTokens = tokens aiResponse,
         metaSafetyScore = responseSafetyScore aiResponse,
         metaProcessingTime = processingTime aiResponse\<rparr>
        sid\<rparr>"

text \<open>\<open>sendMessage\<close>.\<close>

definition sendMessage ::
  "config \<Rightarrow> sdk \<Rightarrow> string \<Rightarrow> ChatRequest \<Rightarrow> world \<Rightarrow> httpResponse \<times> world" where
  "sendMessage cfg sdk uuid body w =
     (case chatRequestSchema_parse body of
        Inl e \<Rightarrow> (errorResponse e, w)
      | Inr validatedData \<Rightarrow>
          let msg = bodyMessage validatedData;
              currentSessionId = currentSessionIdOf uuid validatedData;
              safetyValidation = validateContent cfg msg
          in if \<not> isValid safetyValidation then (blockedResponse safetyValidation, w)
             else
               let w1 = w\<lparr>messages := messages w @ [userMessage currentSessionId msg safetyValidation]\<rparr>
               in (case generateResponse cfg sdk (aiRequestOf validatedData) w1 of
                     (Inl e, w2) \<Rightarrow> (errorResponse e, w2)
                   | (Inr aiResponse, w2) \<Rightarrow>
                       let w3 = w2\<lparr>messages := messages w2 @ [assistantMessage currentSessionId aiResponse]\<rparr>;
                           w4 = upsertSession currentSessionId msg (responseProvider aiResponse) w3
                       in (replyResponse currentSessionId aiResponse, w4)))"

section \<open>The wording of the claims, and example inputs\<close>

text \<open>
  Modelled from the words of claim C5, for comparison with \<open>isEducationalContent\<close>: a
  text lacks every educational keyword, topic and subject indicator when none of them
  occurs in it, letter case aside.
\<close>

definition containsIgnoringCase :: "string \<Rightarrow> string \<Rightarrow> bool" where
  "containsIgnoringCase text k = includesStr (toLowerCase text) (toLowerCase k)"

definition lacksEveryIndicator :: "config \<Rightarrow> string \<Rightarrow> bool" where
  "lacksEveryIndicator cfg text =
     list_all (\<lambda>k. \<not> containsIgnoringCase text k)
       (educationalKeywords @ educationalTopics cfg @ subjectIndicators)"

text \<open>The example text of the specification.\<close>

definition homeworkExample :: string where
  "homeworkExample = ''Please give me the answer to my homework due tomorrow''"

text \<open>A fresh state, a request and a request body for the message \<open>math\<close> with a chosen
  provider, and five behaviours of the vendor SDKs: every call throws; every call
  returns the text \<open>math\<close>; every call returns the text \<open>gun\<close>; Anthropic returns \<open>gun\<close>
  and the others \<open>math\<close>; Google returns \<open>harmful\<close> and the others \<open>math\<close>.\<close>

definition freshWorld :: world where
  "freshWorld = \<lparr>now = 0, attempts = [], messages = [], sessions = Map.empty\<rparr>"

definition mathRequest :: "string option \<Rightarrow> AIRequest" where
  "mathRequest p = \<lparr>message = ''math'', context = None, maxTokens = None, temperature = None,
                    provider = p\<rparr>"

definition chatBody :: "string \<Rightarrow> string option \<Rightarrow> ChatRequest" where
  "chatBody msg p = \<lparr>bodyMessage = msg, bodySessionId = None, bodyProvider = p,
                     bodyMaxTokens = None, bodyTemperature = None\<rparr>"

definition sdkDown :: sdk where
  "sdkDown name request n = (5, SdkThrows (Error ''boom''))"

definition sdkMath :: sdk where
  "sdkMath name request n = (7, SdkReturns (Some ''math'') (Some 12))"

definition sdkGun :: sdk where
  "sdkGun name request n = (7, SdkReturns (Some ''gun'') (Some 3))"

definition sdkAnthropicGun :: sdk where
  "sdkAnthropicGun name request n =
     (if name = ''anthropic'' then (5, SdkReturns (Some ''gun'') (Some 3))
      else (7, SdkReturns (Some ''math'') (Some 12)))"

definition sdkGoogleHarmful :: sdk where
  "sdkGoogleHarmful name request n =
     (if name = ''google'' then (5, SdkReturns (Some ''harmful'') None)
      else (7, SdkReturns (Some ''math'') (Some 12)))"

section \<open>Character classes on code units, bit by bit\<close>

text \<open>
  The character classes above are written with code-unit ranges, as the language
  standard gives them. For running the matcher on a concrete text the same classes are
  restated on the eight bits of a code unit, and these equations are used as code
  equations.
\<close>

lemma code_Char:
  "code (Char b0 b1 b2 b3 b4 b5 b6 b7) =
     of_bool b0 + 2 * (of_bool b1 + 2 * (of_bool b2 + 2 * (of_bool b3 + 2 * (of_bool b4
       + 2 * (of_bool b5 + 2 * (of_bool b6 + 2 * of_bool b7))))))"
  by (simp add: code_def)

lemma toLowerChar_Char [code]:
  "toLowerChar (Char b0 b1 b2 b3 b4 b5 b6 b7) =
     (if (b6 \<and> \<not> b5 \<and> \<not> b7 \<and> (\<not> b4 \<and> (b0 \<or> b1 \<or> b2 \<or> b3) \<or> b4 \<and> (\<not> b3 \<or> \<not> b2 \<and> (\<not> b1 \<or> \<not> b0))))
         \<or> (b7 \<and> b6 \<and> \<not> b5 \<and> \<not> (b4 \<and> \<not> b3 \<and> b2 \<and> b1 \<and> b0) \<and> \<not> (b4 \<and> b3 \<and> b2 \<and> b1 \<and> b0))
      then Char b0 b1 b2 b3 b4 True b6 b7 else Char b0 b1 b2 b3 b4 b5 b6 b7)"
  unfolding toLowerChar_def code_Char
  by (cases b0; cases b1; cases b2; cases b3; cases b4; cases b5; cases b6; cases b7)
     (simp_all add: char_of_def bit_iff_odd)

lemma isDigit_Char [code]:
  "isDigit (Char b0 b1 b2 b3 b4 b5 b6 b7) =
     (\<not> b7 \<and> \<not> b6 \<and> b5 \<and> b4 \<and> (\<not> b3 \<or> \<not> b2 \<and> \<not> b1))"
  unfolding isDigit_def code_Char
  by (cases b0; cases b1; cases b2; cases b3; cases b4; cases b5; cases b6; cases b7) simp_all

lemma isWordChar_Char [code]:
  "isWordChar (Char b0 b1 b2 b3 b4 b5 b6 b7) =
     (\<not> b7 \<and> ((b6 \<and> (\<not> b4 \<and> (b0 \<or> b1 \<or> b2 \<or> b3) \<or> b4 \<and> (\<not> b3 \<or> \<not> b2 \<and> (\<not> b1 \<or> \<not> b0))))
        \<or> (\<not> b6 \<and> b5 \<and> b4 \<and> (\<not> b3 \<or> \<not> b2 \<and> \<not> b1))
        \<or> (b6 \<and> \<not> b5 \<and> b4 \<and> b3 \<and> b2 \<and> b1 \<and> b0)))"
  unfolding isWordChar_def isDigit_def code_Char
  by (cases b0; cases b1; cases b2; cases b3; cases b4; cases b5; cases b6; cases b7) simp_all

lemma isWhiteSpace_Char [code]:
  "isWhiteSpace (Char b0 b1 b2 b3 b4 b5 b6 b7) =
     ((\<not> b7 \<and> \<not> b6 \<and> \<not> b5 \<and> \<not> b4 \<and> b3 \<and> (\<not> b2 \<and> (b0 \<or> b1) \<or> b2 \<and> \<not> b1))
      \<or> (\<not> b6 \<and> b5 \<and> \<not> b4 \<and> \<not> b3 \<and> \<not> b2 \<and> \<not> b1 \<and> \<not> b0))"
  unfolding isWhiteSpace_def code_Char
  by (cases b0; cases b1; cases b2; cases b3; cases b4; cases b5; cases b6; cases b7) simp_all

lemma isLineTerminator_Char [code]:
  "isLineTerminator (Char b0 b1 b2 b3 b4 b5 b6 b7) =
     (\<not> b7 \<and> \<not> b6 \<and> \<not> b5 \<and> \<not> b4 \<and> b3 \<and> (b1 \<and> \<not> b0 \<and> \<not> b2 \<or> b0 \<and> b2 \<and> \<not> b1))"
  unfolding isLineTerminator_def code_Char
  by (cases b0; cases b1; cases b2; cases b3; cases b4; cases b5; cases b6; cases b7) simp_all

section \<open>Strings: what \<open>includes\<close> computes\<close>

lemma startsWith_iff: "startsWith s k \<longleftrightarrow> (\<exists>post. s = k @ post)"
  by (induction s k rule: startsWith.induct) auto

lemma includesStr_iff: "includesStr s k \<longleftrightarrow> (\<exists>pre post. s = pre @ k @ post)"
proof (induction s)
  case Nil
  show ?case by auto
next
  case (Cons c cs)
  show ?case
  proof
    assume "includesStr (c # cs) k"
    then consider "startsWith (c # cs) k" | "includesStr cs k" by auto
    then show "\<exists>pre post. c # cs = pre @ k @ post"
    proof cases
      case 1
      then obtain post where "c # cs = k @ post" by (auto simp: startsWith_iff)
      then have "c # cs = [] @ k @ post" by simp
      then show ?thesis by blast
    next
      case 2
      then obtain pre post where "cs = pre @ k @ post" using Cons.IH by auto
      then have "c # cs = (c # pre) @ k @ post" by simp
      then show ?thesis by blast
    qed
  next
    assume "\<exists>pre post. c # cs = pre @ k @ post"
    then obtain pre post where e: "c # cs = pre @ k @ post" by auto
    show "includesStr (c # cs) k"
    proof (cases pre)
      case Nil
      with e have "startsWith (c # cs) k" by (auto simp: startsWith_iff)
      then show ?thesis by simp
    next
      case (Cons a pre')
      with e have "cs = pre' @ k @ post" by simp
      then have "includesStr cs k" using Cons.IH by auto
      then show ?thesis by simp
    qed
  qed
qed

lemma set_newSet: "set (newSet xs) = set xs"
  by (induction xs) auto

section \<open>The safety scorer\<close>

subsection \<open>The accumulator and the verdict\<close>

lemma check_fst: "fst (check b p i s a) = fst a - (if b then p else 0)"
  by (cases a) (simp add: check_def)

lemma check_issues: "fst (snd (check b p i s a)) = fst (snd a) @ (if b then [i] else [])"
  by (cases a) (simp add: check_def)

lemma check_suggestions: "snd (snd (check b p i s a)) = snd (snd a) @ (if b then [s] else [])"
  by (cases a) (simp add: check_def)

lemma verdict_score: "safetyScore (verdict cfg a) = max 0 (fst a)"
  by (cases a) (simp add: verdict_def Let_def)

lemma verdict_issues:
  "issues (verdict cfg a) = (if fst (snd a) = [] then None else Some (fst (snd a)))"
  by (cases a) (simp add: verdict_def Let_def)

lemma verdict_suggestions:
  "suggestions (verdict cfg a) = (if snd (snd a) = [] then None else Some (snd (snd a)))"
  by (cases a) (simp add: verdict_def Let_def)

lemma verdict_isValid:
  "isValid (verdict cfg a) = (minSafetyScore cfg \<le> max 0 (fst a) \<and> fst (snd a) = [])"
  by (cases a) (simp add: verdict_def Let_def)

subsection \<open>Score, issues and validity of \<open>validateContent\<close>\<close>

lemma validateContent_score:
  "safetyScore (validateContent cfg c) =
     max 0 (1 - (if findBlockedKeywords cfg (toLowerCase c) \<noteq> [] then 5 / 10 else 0)
              - (if \<not> isEducationalContent cfg (toLowerCase c) then 3 / 10 else 0)
              - (if length c > 2000 then 1 / 10 else 0)
              - (if detectHomeworkPattern c then 2 / 10 else 0)
              - (if detectDangerousContent (toLowerCase c) then 8 / 10 else 0))"
  by (simp only: validateContent_def Let_def verdict_score check_fst fst_conv length_greater_0_conv)

lemma validateContent_issues:
  "issues (validateContent cfg c) =
    (let iss = (if findBlockedKeywords cfg (toLowerCase c) \<noteq> []
                then [blockedIssue (findBlockedKeywords cfg (toLowerCase c))] else [])
             @ (if \<not> isEducationalContent cfg (toLowerCase c) then [notEducationalIssue] else [])
             @ (if length c > 2000 then [tooLongIssue] else [])
             @ (if detectHomeworkPattern c then [homeworkIssue] else [])
             @ (if detectDangerousContent (toLowerCase c) then [dangerousIssue] else [])
     in if iss = [] then None else Some iss)"
  by (simp only: validateContent_def Let_def verdict_issues check_issues fst_conv snd_conv
        length_greater_0_conv append_Nil append_assoc)

lemma validateContent_isValid:
  "isValid (validateContent cfg c) \<longleftrightarrow>
     minSafetyScore cfg \<le> safetyScore (validateContent cfg c)
     \<and> issues (validateContent cfg c) = None"
  by (simp only: validateContent_def Let_def verdict_score verdict_issues verdict_isValid) simp

lemma validateContent_issues_None:
  "issues (validateContent cfg c) = None \<longleftrightarrow>
     findBlockedKeywords cfg (toLowerCase c) = [] \<and> isEducationalContent cfg (toLowerCase c)
     \<and> \<not> length c > 2000 \<and> \<not> detectHomeworkPattern c
     \<and> \<not> detectDangerousContent (toLowerCase c)"
  unfolding validateContent_issues Let_def by (simp split: if_splits)

lemma score_one_iff:
  "max 0 (1 - (if b1 then 5 / 10 else 0) - (if b2 then 3 / 10 else 0) - (if b3 then 1 / 10 else 0)
            - (if b4 then 2 / 10 else 0) - (if b5 then 8 / 10 else 0)) = (1::rat)
   \<longleftrightarrow> \<not> b1 \<and> \<not> b2 \<and> \<not> b3 \<and> \<not> b4 \<and> \<not> b5"
  by (cases b1; cases b2; cases b3; cases b4; cases b5; simp)

lemma score_le_one:
  "max 0 (1 - (if b1 then 5 / 10 else 0) - (if b2 then 3 / 10 else 0) - (if b3 then 1 / 10 else 0)
            - (if b4 then 2 / 10 else 0) - (if b5 then 8 / 10 else 0)) \<le> (1::rat)"
  by (cases b1; cases b2; cases b3; cases b4; cases b5; simp)

lemma issues_None_iff_score:
  "issues (validateContent cfg c) = None \<longleftrightarrow> safetyScore (validateContent cfg c) = 1"
  apply (simp only: validateContent_issues_None)
  apply (simp only: validateContent_score)
  apply (simp only: score_one_iff)
  apply (simp only: not_not)
  done

lemma validateContent_score_range:
  "0 \<le> safetyScore (validateContent cfg c) \<and> safetyScore (validateContent cfg c) \<le> 1"
proof
  show "0 \<le> safetyScore (validateContent cfg c)"
    by (simp only: validateContent_score max.cobounded1)
  show "safetyScore (validateContent cfg c) \<le> 1"
    by (simp only: validateContent_score score_le_one)
qed

text \<open>The configured minimum is read by the verdict only.\<close>

lemma findBlockedKeywords_min [simp]:
  "findBlockedKeywords (cfg\<lparr>minSafetyScore := m\<rparr>) s = findBlockedKeywords cfg s"
  by (simp add: findBlockedKeywords_def blockedKeywordSet_def)

lemma isEducationalContent_min [simp]:
  "isEducationalContent (cfg\<lparr>minSafetyScore := m\<rparr>) s = isEducationalContent cfg s"
  by (simp add: isEducationalContent_def educationalTopicSet_def)

lemma validateContent_score_min:
  "safetyScore (validateContent (cfg\<lparr>minSafetyScore := m\<rparr>) c) = safetyScore (validateContent cfg c)"
  by (simp only: validateContent_score findBlockedKeywords_min isEducationalContent_min)

lemma isValid_iff_full_score:
  assumes "minSafetyScore cfg \<le> 1"
  shows "isValid (validateContent cfg c) \<longleftrightarrow> safetyScore (validateContent cfg c) = 1"
proof
  assume "isValid (validateContent cfg c)"
  then have "issues (validateContent cfg c) = None"
    by (simp only: validateContent_isValid)
  then show "safetyScore (validateContent cfg c) = 1"
    by (simp only: issues_None_iff_score)
next
  assume one: "safetyScore (validateContent cfg c) = 1"
  then have "issues (validateContent cfg c) = None"
    by (simp only: issues_None_iff_score)
  moreover have "minSafetyScore cfg \<le> safetyScore (validateContent cfg c)"
    using assms one by simp
  ultimately show "isValid (validateContent cfg c)"
    by (simp only: validateContent_isValid)
qed

lemma tooLong_issue:
  assumes "2000 < length c"
  shows "issues (validateContent cfg c) \<noteq> None"
  using assms by (simp only: validateContent_issues_None) simp

lemma blocked_keyword_found:
  assumes "kw \<in> set (blockedKeywords cfg)"
      and "includesStr (toLowerCase text) (toLowerCase kw)"
  shows "findBlockedKeywords cfg (toLowerCase text) \<noteq> []"
proof -
  have "toLowerCase kw \<in> set (blockedKeywordSet cfg)"
    using assms(1) by (simp add: blockedKeywordSet_def set_newSet)
  then show ?thesis
    using assms(2) by (auto simp: findBlockedKeywords_def filter_empty_conv)
qed

subsection \<open>The checks in the words of the claims\<close>

text \<open>
  The lower-cased text never contains a capital \<open>D\<close>, so the subject indicator \<open>DNA\<close> is
  never found. With that entry left out, \<open>isEducationalContent\<close> and
  \<open>findBlockedKeywords\<close> decide what the claims say: whether some indicator, or some
  configured blocked keyword, occurs in the text, letter case aside.
\<close>

lemma toLowerChar_not_D: "toLowerChar c \<noteq> CHR ''D''"
  by (cases c) (auto simp: toLowerChar_Char)

lemma lower_text_has_no_DNA: "\<not> includesStr (toLowerCase s) ''DNA''"
proof
  assume "includesStr (toLowerCase s) ''DNA''"
  then obtain pre post where "toLowerCase s = pre @ ''DNA'' @ post"
    unfolding includesStr_iff by blast
  then have "CHR ''D'' \<in> set (toLowerCase s)" by simp
  then obtain x where "toLowerChar x = CHR ''D''" by (auto simp: toLowerCase_def)
  with toLowerChar_not_D show False by blast
qed

lemma educationalKeywords_lower: "list_all (\<lambda>k. toLowerCase k = k) educationalKeywords"
  by code_simp

lemma subjectIndicators_lower:
  "list_all (\<lambda>k. toLowerCase k = k) (remove1 ''DNA'' subjectIndicators)"
  by code_simp

lemma DNA_listed: "''DNA'' \<in> set subjectIndicators"
  by code_simp

lemma isEducationalContent_wording:
  "isEducationalContent cfg (toLowerCase text) \<longleftrightarrow>
     (\<exists>k \<in> set (educationalKeywords @ educationalTopics cfg @ remove1 ''DNA'' subjectIndicators).
        containsIgnoringCase text k)"
proof -
  let ?L = "toLowerCase text"
  have kw: "(\<exists>k \<in> set educationalKeywords. includesStr ?L k)
            \<longleftrightarrow> (\<exists>k \<in> set educationalKeywords. containsIgnoringCase text k)"
    using educationalKeywords_lower
    by (simp add: list_all_iff containsIgnoringCase_def)
  have tp: "(\<exists>t \<in> set (educationalTopicSet cfg). includesStr ?L t)
            \<longleftrightarrow> (\<exists>k \<in> set (educationalTopics cfg). containsIgnoringCase text k)"
    by (auto simp: educationalTopicSet_def set_newSet containsIgnoringCase_def)
  have si: "(\<exists>k \<in> set subjectIndicators. includesStr ?L k)
            \<longleftrightarrow> (\<exists>k \<in> set (remove1 ''DNA'' subjectIndicators). containsIgnoringCase text k)"
  proof
    assume "\<exists>k \<in> set subjectIndicators. includesStr ?L k"
    then obtain k where k: "k \<in> set subjectIndicators" "includesStr ?L k" by blast
    then have "k \<noteq> ''DNA''" using lower_text_has_no_DNA by blast
    with k have in': "k \<in> set (remove1 ''DNA'' subjectIndicators)" by (simp add: in_set_remove1)
    with subjectIndicators_lower have "toLowerCase k = k" by (auto simp: list_all_iff)
    with k have "containsIgnoringCase text k" by (simp add: containsIgnoringCase_def)
    with in' show "\<exists>k \<in> set (remove1 ''DNA'' subjectIndicators). containsIgnoringCase text k"
      by blast
  next
    assume "\<exists>k \<in> set (remove1 ''DNA'' subjectIndicators). containsIgnoringCase text k"
    then obtain k where k: "k \<in> set (remove1 ''DNA'' subjectIndicators)" "containsIgnoringCase text k"
      by blast
    with subjectIndicators_lower have "toLowerCase k = k" by (auto simp: list_all_iff)
    moreover from k have "k \<in> set subjectIndicators" by (meson notin_set_remove1)
    ultimately have "k \<in> set subjectIndicators \<and> includesStr ?L k"
      using k by (simp add: containsIgnoringCase_def)
    then show "\<exists>k \<in> set subjectIndicators. includesStr ?L k"
      by blast
  qed
  have "isEducationalContent cfg ?L \<longleftrightarrow>
      (\<exists>k \<in> set educationalKeywords. includesStr ?L k)
      \<or> (\<exists>t \<in> set (educationalTopicSet cfg). includesStr ?L t)
      \<or> (\<exists>k \<in> set subjectIndicators. includesStr ?L k)"
    by (simp add: isEducationalContent_def Let_def list_ex_iff)
  also have "\<dots> \<longleftrightarrow> (\<exists>k \<in> set educationalKeywords. containsIgnoringCase text k)
      \<or> (\<exists>k \<in> set (educationalTopics cfg). containsIgnoringCase text k)
      \<or> (\<exists>k \<in> set (remove1 ''DNA'' subjectIndicators). containsIgnoringCase text k)"
    by (simp only: kw tp si)
  also have "\<dots> \<longleftrightarrow> (\<exists>k \<in> set (educationalKeywords @ educationalTopics cfg
                                   @ remove1 ''DNA'' subjectIndicators). containsIgnoringCase text k)"
    by auto
  finally show ?thesis .
qed

lemma findBlockedKeywords_wording:
  "findBlockedKeywords cfg (toLowerCase text) \<noteq> []
     \<longleftrightarrow> (\<exists>kw \<in> set (blockedKeywords cfg). containsIgnoringCase text kw)"
  by (auto simp: findBlockedKeywords_def blockedKeywordSet_def set_newSet filter_empty_conv
        containsIgnoringCase_def)

lemma validateContent_score_wording:
  "safetyScore (validateContent cfg c) =
     max 0 (1 - (if \<exists>kw \<in> set (blockedKeywords cfg). containsIgnoringCase c kw then 5 / 10 else 0)
              - (if \<forall>k \<in> set (educationalKeywords @ educationalTopics cfg
                                 @ remove1 ''DNA'' subjectIndicators). \<not> containsIgnoringCase c k
                 then 3 / 10 else 0)
              - (if length c > 2000 then 1 / 10 else 0)
              - (if detectHomeworkPattern c then 2 / 10 else 0)
              - (if detectDangerousContent (toLowerCase c) then 8 / 10 else 0))"
  by (simp only: validateContent_score findBlockedKeywords_wording isEducationalContent_wording
        bex_simps)

section \<open>The orchestrator\<close>

declare generateResponse.simps [simp del]

lemma callSdk_frame:
  assumes "callSdk sdk n req w = (r, w')"
  shows "attempts w' = attempts w \<and> messages w' = messages w \<and> sessions w' = sessions w"
  using assms by (auto simp: callSdk_def split: prod.splits)

lemma generateOpenAIResponse_frame:
  assumes "generateOpenAIResponse cfg sdk req w = (r, w')"
  shows "attempts w' = attempts w \<and> messages w' = messages w \<and> sessions w' = sessions w"
  using assms
  by (auto simp: generateOpenAIResponse_def
      split: if_splits prod.splits sdkResult.splits option.splits dest: callSdk_frame)

lemma generateAnthropicResponse_frame:
  assumes "generateAnthropicResponse cfg sdk req w = (r, w')"
  shows "attempts w' = attempts w \<and> messages w' = messages w \<and> sessions w' = sessions w"
  using assms
  by (auto simp: generateAnthropicResponse_def
      split: if_splits prod.splits sdkResult.splits option.splits dest: callSdk_frame)

lemma generateGoogleResponse_frame:
  assumes "generateGoogleResponse cfg sdk req w = (r, w')"
  shows "attempts w' = attempts w \<and> messages w' = messages w \<and> sessions w' = sessions w"
  using assms
  by (auto simp: generateGoogleResponse_def
      split: if_splits prod.splits sdkResult.splits option.splits dest: callSdk_frame)

lemma callProvider_frame:
  assumes "callProvider cfg sdk p req w = (r, w')"
  shows "attempts w' = attempts w @ [p] \<and> messages w' = messages w \<and> sessions w' = sessions w"
proof -
  let ?w0 = "w\<lparr>attempts := attempts w @ [p]\<rparr>"
  have w0: "attempts ?w0 = attempts w @ [p] \<and> messages ?w0 = messages w \<and> sessions ?w0 = sessions w"
    by simp
  consider (o) "p = ''openai''" | (a) "p \<noteq> ''openai''" "p = ''anthropic''"
    | (g) "p \<noteq> ''openai''" "p \<noteq> ''anthropic''" "p = ''google''"
    | (u) "p \<noteq> ''openai''" "p \<noteq> ''anthropic''" "p \<noteq> ''google''"
    by blast
  then show ?thesis
  proof cases
    case o
    with assms have "generateOpenAIResponse cfg sdk req ?w0 = (r, w')"
      by (simp add: callProvider_def Let_def)
    from generateOpenAIResponse_frame [OF this] w0 show ?thesis by simp
  next
    case a
    with assms have "generateAnthropicResponse cfg sdk req ?w0 = (r, w')"
      by (simp add: callProvider_def Let_def)
    from generateAnthropicResponse_frame [OF this] w0 show ?thesis by simp
  next
    case g
    with assms have "generateGoogleResponse cfg sdk req ?w0 = (r, w')"
      by (simp add: callProvider_def Let_def)
    from generateGoogleResponse_frame [OF this] w0 show ?thesis by simp
  next
    case u
    with assms have "w' = ?w0"
      by (simp add: callProvider_def Let_def)
    with w0 show ?thesis by simp
  qed
qed

lemma finishResponse_world: "snd (finishResponse cfg st r w) = w"
  by (simp add: finishResponse_def Let_def)

lemma finishResponse_invalid:
  assumes "\<not> isValid (validateContent cfg (applyEducationalContext (content r)))"
  shows "finishResponse cfg st r w = (Inl (Error ''Generated response failed safety check''), w)"
  using assms by (simp add: finishResponse_def Let_def)

lemma finishResponse_Inr:
  assumes "finishResponse cfg st r w = (Inr r', w')"
  shows "content r' = applyEducationalContext (content r)
         \<and> isValid (validateContent cfg (content r'))
         \<and> responseSafetyScore r' = safetyScore (validateContent cfg (content r'))"
  using assms by (auto simp: finishResponse_def Let_def split: if_splits)

lemma tryBlock_frame:
  assumes "tryBlock cfg sdk p req st w = (r, w')"
  shows "attempts w' = attempts w @ [p] \<and> messages w' = messages w \<and> sessions w' = sessions w"
proof (cases "callProvider cfg sdk p req w")
  case (Pair x w1)
  note f = callProvider_frame [OF Pair]
  show ?thesis
  proof (cases x)
    case (Inl e)
    with Pair assms have "w' = w1" by (simp add: tryBlock_def)
    with f show ?thesis by simp
  next
    case (Inr resp)
    with Pair assms have "finishResponse cfg st resp w1 = (r, w')" by (simp add: tryBlock_def)
    then have "w' = w1" using finishResponse_world [of cfg st resp w1] by simp
    with f show ?thesis by simp
  qed
qed

lemma tryBlock_Inr:
  assumes "tryBlock cfg sdk p req st w = (Inr r', w')"
  shows "isValid (validateContent cfg (content r'))
         \<and> responseSafetyScore r' = safetyScore (validateContent cfg (content r'))"
proof (cases "callProvider cfg sdk p req w")
  case (Pair x w1)
  show ?thesis
  proof (cases x)
    case (Inl e)
    with Pair assms show ?thesis by (simp add: tryBlock_def)
  next
    case (Inr resp)
    with Pair assms have "finishResponse cfg st resp w1 = (Inr r', w')" by (simp add: tryBlock_def)
    from finishResponse_Inr [OF this] show ?thesis by blast
  qed
qed

lemma tryBlock_call_fails:
  assumes "callProvider cfg sdk p req w = (Inl e, w1)"
  shows "tryBlock cfg sdk p req st w = (Inl e, w1)"
  using assms by (simp add: tryBlock_def)

lemma tryBlock_reply_rejected:
  assumes "callProvider cfg sdk p req w = (Inr r, w1)"
      and "\<not> isValid (validateContent cfg (applyEducationalContext (content r)))"
  shows "tryBlock cfg sdk p req st w = (Inl (Error ''Generated response failed safety check''), w1)"
  using assms by (simp add: tryBlock_def finishResponse_invalid)

text \<open>The four ways through \<open>generateResponse\<close>.\<close>

lemma generateResponse_blocked:
  assumes "\<not> isValid (validateContent cfg (message req))"
  shows "generateResponse cfg sdk req w = (Inl (contentBlocked (validateContent cfg (message req))), w)"
  using assms by (subst generateResponse.simps) (simp add: Let_def)

lemma generateResponse_success:
  assumes "isValid (validateContent cfg (message req))"
      and "tryBlock cfg sdk (requestedProvider cfg req) req (now w) w = (Inr r, w')"
  shows "generateResponse cfg sdk req w = (Inr r, w')"
  using assms by (subst generateResponse.simps) (simp add: Let_def)

lemma generateResponse_default_fails:
  assumes "isValid (validateContent cfg (message req))"
      and "tryBlock cfg sdk (requestedProvider cfg req) req (now w) w = (Inl e, w')"
      and "requestedProvider cfg req = defaultAiProvider cfg"
  shows "generateResponse cfg sdk req w = (Inl e, w')"
  using assms by (subst generateResponse.simps) (simp add: Let_def)

lemma generateResponse_fallback:
  assumes "isValid (validateContent cfg (message req))"
      and "tryBlock cfg sdk (requestedProvider cfg req) req (now w) w = (Inl e, w')"
      and "requestedProvider cfg req \<noteq> defaultAiProvider cfg"
  shows "generateResponse cfg sdk req w
         = generateResponse cfg sdk (req\<lparr>provider := Some (defaultAiProvider cfg)\<rparr>) w'"
  using assms by (subst generateResponse.simps) (simp add: Let_def)

lemma requestedProvider_fallback [simp]:
  "requestedProvider cfg (req\<lparr>provider := Some (defaultAiProvider cfg)\<rparr>) = defaultAiProvider cfg"
  by (simp add: requestedProvider_def)

lemma generateResponse_default:
  assumes "isValid (validateContent cfg (message req))"
      and "requestedProvider cfg req = defaultAiProvider cfg"
  shows "generateResponse cfg sdk req w = tryBlock cfg sdk (defaultAiProvider cfg) req (now w) w"
proof (cases "tryBlock cfg sdk (defaultAiProvider cfg) req (now w) w")
  case (Pair x w')
  show ?thesis
  proof (cases x)
    case (Inl e)
    with Pair assms show ?thesis by (simp add: generateResponse_default_fails)
  next
    case (Inr r)
    with Pair assms show ?thesis by (simp add: generateResponse_success)
  qed
qed

lemma generateResponse_fallback_run:
  assumes "isValid (validateContent cfg (message req))"
      and "tryBlock cfg sdk (requestedProvider cfg req) req (now w) w = (Inl e, w')"
      and "requestedProvider cfg req \<noteq> defaultAiProvider cfg"
  shows "generateResponse cfg sdk req w
         = tryBlock cfg sdk (defaultAiProvider cfg)
             (req\<lparr>provider := Some (defaultAiProvider cfg)\<rparr>) (now w') w'"
proof -
  have "isValid (validateContent cfg (message (req\<lparr>provider := Some (defaultAiProvider cfg)\<rparr>)))"
    using assms(1) by simp
  then have "generateResponse cfg sdk (req\<lparr>provider := Some (defaultAiProvider cfg)\<rparr>) w'
     = tryBlock cfg sdk (defaultAiProvider cfg) (req\<lparr>provider := Some (defaultAiProvider cfg)\<rparr>) (now w') w'"
    by (rule generateResponse_default) simp
  with generateResponse_fallback [OF assms] show ?thesis by simp
qed

text \<open>What a call of \<open>generateResponse\<close> leaves behind: the tables untouched, and the
  trace longer by nothing, by the requested provider, or by the requested provider and
  the default one.\<close>

lemma generateResponse_frame:
  "messages (snd (generateResponse cfg sdk req w)) = messages w
   \<and> sessions (snd (generateResponse cfg sdk req w)) = sessions w
   \<and> (attempts (snd (generateResponse cfg sdk req w)) = attempts w
      \<or> attempts (snd (generateResponse cfg sdk req w)) = attempts w @ [requestedProvider cfg req]
      \<or> (requestedProvider cfg req \<noteq> defaultAiProvider cfg \<and>
         attempts (snd (generateResponse cfg sdk req w))
           = attempts w @ [requestedProvider cfg req, defaultAiProvider cfg]))"
proof (cases "isValid (validateContent cfg (message req))")
  case False
  then show ?thesis by (simp add: generateResponse_blocked)
next
  case True
  obtain x w' where t: "tryBlock cfg sdk (requestedProvider cfg req) req (now w) w = (x, w')"
    by (cases "tryBlock cfg sdk (requestedProvider cfg req) req (now w) w")
  note f = tryBlock_frame [OF t]
  show ?thesis
  proof (cases x)
    case (Inr r)
    with True t have "generateResponse cfg sdk req w = (Inr r, w')"
      by (simp add: generateResponse_success)
    with f show ?thesis by simp
  next
    case (Inl e)
    show ?thesis
    proof (cases "requestedProvider cfg req = defaultAiProvider cfg")
      case True
      with \<open>isValid _\<close> t Inl have "generateResponse cfg sdk req w = (Inl e, w')"
        by (simp add: generateResponse_default_fails)
      with f show ?thesis by simp
    next
      case False
      let ?req' = "req\<lparr>provider := Some (defaultAiProvider cfg)\<rparr>"
      obtain y w'' where t2: "tryBlock cfg sdk (defaultAiProvider cfg) ?req' (now w') w' = (y, w'')"
        by (cases "tryBlock cfg sdk (defaultAiProvider cfg) ?req' (now w') w'")
      have "generateResponse cfg sdk req w = (y, w'')"
        using generateResponse_fallback_run [of cfg req sdk w e w'] True t Inl False t2 by simp
      with f tryBlock_frame [OF t2] False show ?thesis by simp
    qed
  qed
qed

lemma generateResponse_Inr:
  assumes "generateResponse cfg sdk req w = (Inr r, w')"
  shows "isValid (validateContent cfg (content r))
         \<and> responseSafetyScore r = safetyScore (validateContent cfg (content r))"
proof (cases "isValid (validateContent cfg (message req))")
  case False
  with assms show ?thesis by (simp add: generateResponse_blocked)
next
  case True
  obtain x w1 where t: "tryBlock cfg sdk (requestedProvider cfg req) req (now w) w = (x, w1)"
    by (cases "tryBlock cfg sdk (requestedProvider cfg req) req (now w) w")
  show ?thesis
  proof (cases x)
    case (Inr r1)
    with True t have "generateResponse cfg sdk req w = (Inr r1, w1)"
      by (simp add: generateResponse_success)
    with assms have "tryBlock cfg sdk (requestedProvider cfg req) req (now w) w = (Inr r, w')"
      using t Inr by simp
    from tryBlock_Inr [OF this] show ?thesis .
  next
    case (Inl e)
    show ?thesis
    proof (cases "requestedProvider cfg req = defaultAiProvider cfg")
      case True
      with \<open>isValid _\<close> t Inl have "generateResponse cfg sdk req w = (Inl e, w1)"
        by (simp add: generateResponse_default_fails)
      with assms show ?thesis by simp
    next
      case False
      let ?req' = "req\<lparr>provider := Some (defaultAiProvider cfg)\<rparr>"
      have "generateResponse cfg sdk req w = tryBlock cfg sdk (defaultAiProvider cfg) ?req' (now w1) w1"
        using generateResponse_fallback_run [of cfg req sdk w e w1] True t Inl False by simp
      with assms have "tryBlock cfg sdk (defaultAiProvider cfg) ?req' (now w1) w1 = (Inr r, w')"
        by simp
      from tryBlock_Inr [OF this] show ?thesis .
    qed
  qed
qed

subsection \<open>Projections of the provider call and of the \<open>try\<close> block\<close>

lemma callProvider_attempts:
  "attempts (snd (callProvider cfg sdk p req w)) = attempts w @ [p]"
  using callProvider_frame [of cfg sdk p req w "fst (callProvider cfg sdk p req w)"
      "snd (callProvider cfg sdk p req w)"] by simp

lemma tryBlock_attempts:
  "attempts (snd (tryBlock cfg sdk p req st w)) = attempts w @ [p]"
  using tryBlock_frame [of cfg sdk p req st w "fst (tryBlock cfg sdk p req st w)"
      "snd (tryBlock cfg sdk p req st w)"] by simp

lemma tryBlock_call_fails_fst:
  assumes "fst (callProvider cfg sdk p req w) = Inl e"
  shows "tryBlock cfg sdk p req st w = (Inl e, snd (callProvider cfg sdk p req w))"
  using assms tryBlock_call_fails [of cfg sdk p req w e "snd (callProvider cfg sdk p req w)" st]
  by (cases "callProvider cfg sdk p req w") simp

lemma tryBlock_reply_rejected_fst:
  assumes "fst (callProvider cfg sdk p req w) = Inr r"
      and "\<not> isValid (validateContent cfg (applyEducationalContext (content r)))"
  shows "tryBlock cfg sdk p req st w
         = (Inl (Error ''Generated response failed safety check''), snd (callProvider cfg sdk p req w))"
  using assms tryBlock_reply_rejected [of cfg sdk p req w r "snd (callProvider cfg sdk p req w)" st]
  by (cases "callProvider cfg sdk p req w") simp

section \<open>The controller\<close>

lemma errorResponse_not_success: "\<not> success (errorResponse e)"
  by (cases e) (simp_all add: errorResponse_def)

lemma upsertSession_frame:
  "messages (upsertSession sid m p w) = messages w \<and> attempts (upsertSession sid m p w) = attempts w"
  by (simp add: upsertSession_def split: option.splits)

lemma sendMessage_schema:
  assumes "schemaIssues body \<noteq> []"
  shows "sendMessage cfg sdk uuid body w
         = (\<lparr>status = 400, success = False, payload = InvalidRequest (schemaIssues body)\<rparr>, w)"
  using assms by (simp add: sendMessage_def chatRequestSchema_parse_def errorResponse_def)

lemma sendMessage_blocked:
  assumes "schemaIssues body = []"
      and "\<not> isValid (validateContent cfg (bodyMessage body))"
  shows "sendMessage cfg sdk uuid body w = (blockedResponse (validateContent cfg (bodyMessage body)), w)"
  using assms by (simp add: sendMessage_def chatRequestSchema_parse_def Let_def)

lemma sendMessage_failed:
  assumes "schemaIssues body = []"
      and "isValid (validateContent cfg (bodyMessage body))"
      and "generateResponse cfg sdk (aiRequestOf body)
             (w\<lparr>messages := messages w @ [userMessage (currentSessionIdOf uuid body) (bodyMessage body)
                   (validateContent cfg (bodyMessage body))]\<rparr>) = (Inl e, w2)"
  shows "sendMessage cfg sdk uuid body w = (errorResponse e, w2)"
  using assms by (simp add: sendMessage_def chatRequestSchema_parse_def Let_def)

lemma sendMessage_replied:
  assumes "schemaIssues body = []"
      and "isValid (validateContent cfg (bodyMessage body))"
      and "generateResponse cfg sdk (aiRequestOf body)
             (w\<lparr>messages := messages w @ [userMessage (currentSessionIdOf uuid body) (bodyMessage body)
                   (validateContent cfg (bodyMessage body))]\<rparr>) = (Inr r, w2)"
  shows "sendMessage cfg sdk uuid body w
         = (replyResponse (currentSessionIdOf uuid body) r,
            upsertSession (currentSessionIdOf uuid body) (bodyMessage body) (responseProvider r)
              (w2\<lparr>messages := messages w2 @ [assistantMessage (currentSessionIdOf uuid body) r]\<rparr>))"
  using assms by (simp add: sendMessage_def chatRequestSchema_parse_def Let_def)

lemma score_below_minimum_invalid:
  assumes "safetyScore (validateContent cfg c) < minSafetyScore cfg"
  shows "\<not> isValid (validateContent cfg c)"
  using assms by (simp only: validateContent_isValid) simp

section \<open>Claims about the safety scorer\<close>

text \<open>
  Claim C4. For every configuration and every text, \<open>validateContent\<close> returns
  \<open>isValid = true\<close> if and only if the score it returns is at least
  \<open>config.minSafetyScore\<close> and it recorded no issue (the returned \<open>issues\<close> field is
  \<open>undefined\<close>). So any recorded issue makes the result invalid whatever the score is,
  and a text of more than 2000 code units, which always records the length issue, is
  always invalid.
\<close>

theorem C4_isValid_iff_score_and_no_issues:
  "(isValid (validateContent cfg c) \<longleftrightarrow>
      minSafetyScore cfg \<le> safetyScore (validateContent cfg c)
      \<and> issues (validateContent cfg c) = None)
   \<and> (issues (validateContent cfg c) \<noteq> None \<longrightarrow> \<not> isValid (validateContent cfg c))
   \<and> (2000 < length c \<longrightarrow> issues (validateContent cfg c) \<noteq> None)"
proof (intro conjI impI)
  show "isValid (validateContent cfg c) \<longleftrightarrow>
      minSafetyScore cfg \<le> safetyScore (validateContent cfg c)
      \<and> issues (validateContent cfg c) = None"
    by (rule validateContent_isValid)
  show "\<not> isValid (validateContent cfg c)" if "issues (validateContent cfg c) \<noteq> None"
    using that by (simp only: validateContent_isValid) simp
  show "issues (validateContent cfg c) \<noteq> None" if "2000 < length c"
    using that by (rule tooLong_issue)
qed

theorem C4_witness:
  "2000 < length (replicate 2001 CHR ''a'')
   \<and> issues (validateContent defaultConfig (replicate 2001 CHR ''a'')) \<noteq> None
   \<and> \<not> isValid (validateContent defaultConfig (replicate 2001 CHR ''a''))"
  using C4_isValid_iff_score_and_no_issues [of defaultConfig "replicate 2001 CHR ''a''"]
  by simp

text \<open>
  Claim C6. For every configuration and every text that contains a configured blocked
  keyword up to letter case (some segment \<open>mid\<close> of the text and the keyword have the
  same lower-case form), \<open>validateContent\<close> returns \<open>isValid = false\<close>.
\<close>

theorem C6_blocked_keyword_invalid:
  assumes "kw \<in> set (blockedKeywords cfg)"
      and "text = pre @ mid @ post"
      and "toLowerCase mid = toLowerCase kw"
  shows "\<not> isValid (validateContent cfg text)"
proof -
  have "toLowerCase text = toLowerCase pre @ toLowerCase kw @ toLowerCase post"
    using assms(2,3) by (simp add: toLowerCase_def)
  then have "includesStr (toLowerCase text) (toLowerCase kw)"
    unfolding includesStr_iff by blast
  with assms(1) have "findBlockedKeywords cfg (toLowerCase text) \<noteq> []"
    by (rule blocked_keyword_found)
  then have "issues (validateContent cfg text) \<noteq> None"
    by (simp only: validateContent_issues_None) simp
  then show ?thesis
    by (simp only: validateContent_isValid) simp
qed

theorem C6_witness:
  "''harmful'' \<in> set (blockedKeywords defaultConfig)
   \<and> ''Is it HARMFUL?'' = ''Is it '' @ ''HARMFUL'' @ ''?''
   \<and> toLowerCase ''HARMFUL'' = toLowerCase ''harmful''
   \<and> \<not> isValid (validateContent defaultConfig ''Is it HARMFUL?'')"
proof -
  have a: "''harmful'' \<in> set (blockedKeywords defaultConfig)"
    by (simp add: defaultConfig_def)
  have b: "''Is it HARMFUL?'' = ''Is it '' @ ''HARMFUL'' @ ''?''"
    by simp
  have c: "toLowerCase ''HARMFUL'' = toLowerCase ''harmful''"
    by code_simp
  show ?thesis
    using a b c C6_blocked_keyword_invalid [OF a b c] by blast
qed

text \<open>
  Claim C9. For every configuration and every text, \<open>validateContent\<close> records no issue
  if and only if the score it returns is exactly 1: each of the five checks lowers the
  score and records an issue together. Hence, when \<open>config.minSafetyScore\<close> is at most
  1, the result is valid if and only if the score is exactly 1, and replacing the
  configured minimum by any other value \<open>m\<close> of at most 1 leaves the validity of every
  text unchanged.
\<close>

theorem C9_valid_iff_full_score:
  "(issues (validateContent cfg c) = None \<longleftrightarrow> safetyScore (validateContent cfg c) = 1)
   \<and> (minSafetyScore cfg \<le> 1 \<longrightarrow>
        (isValid (validateContent cfg c) \<longleftrightarrow> safetyScore (validateContent cfg c) = 1))
   \<and> (minSafetyScore cfg \<le> 1 \<and> m \<le> 1 \<longrightarrow>
        isValid (validateContent (cfg\<lparr>minSafetyScore := m\<rparr>) c) = isValid (validateContent cfg c))"
proof (intro conjI impI)
  show "issues (validateContent cfg c) = None \<longleftrightarrow> safetyScore (validateContent cfg c) = 1"
    by (rule issues_None_iff_score)
  show "isValid (validateContent cfg c) \<longleftrightarrow> safetyScore (validateContent cfg c) = 1"
    if "minSafetyScore cfg \<le> 1"
    using that by (rule isValid_iff_full_score)
  show "isValid (validateContent (cfg\<lparr>minSafetyScore := m\<rparr>) c) = isValid (validateContent cfg c)"
    if h: "minSafetyScore cfg \<le> 1 \<and> m \<le> 1"
  proof -
    have "minSafetyScore (cfg\<lparr>minSafetyScore := m\<rparr>) \<le> 1"
      using h by simp
    then have "isValid (validateContent (cfg\<lparr>minSafetyScore := m\<rparr>) c)
        \<longleftrightarrow> safetyScore (validateContent (cfg\<lparr>minSafetyScore := m\<rparr>) c) = 1"
      by (rule isValid_iff_full_score)
    also have "\<dots> \<longleftrightarrow> safetyScore (validateContent cfg c) = 1"
      by (simp only: validateContent_score_min)
    also have "\<dots> \<longleftrightarrow> isValid (validateContent cfg c)"
      using h isValid_iff_full_score [of cfg c] by blast
    finally show ?thesis .
  qed
qed

theorem C9_witness:
  "minSafetyScore defaultConfig \<le> 1 \<and> (0::rat) \<le> 1
   \<and> (isValid (validateContent defaultConfig ''math'')
        \<longleftrightarrow> safetyScore (validateContent defaultConfig ''math'') = 1)
   \<and> isValid (validateContent (defaultConfig\<lparr>minSafetyScore := 0\<rparr>) ''math'')
       = isValid (validateContent defaultConfig ''math'')"
proof -
  have a: "minSafetyScore defaultConfig \<le> 1"
    by (simp add: defaultConfig_def)
  show ?thesis
    using a C9_valid_iff_full_score [of defaultConfig "''math''" 0] by simp
qed

text \<open>
  Claim C5, at the text \<open>DNA\<close>. The claim subtracts 0.3 only from a text that lacks every
  educational keyword, topic and subject indicator. \<open>DNA\<close> is one of the subject
  indicators and the text contains it, yet \<open>isEducationalContent\<close> answers no and 0.3 is
  subtracted: the indicator is written in capitals and is looked for in the lower-cased
  text, where it can never occur. With that one indicator left out, the score is the
  one the claim states (\<open>validateContent_score_wording\<close>), between 0 and 1
  (\<open>validateContent_score_range\<close>).
\<close>

theorem C5_DNA_is_penalised:
  "\<not> lacksEveryIndicator defaultConfig ''DNA''
   \<and> \<not> isEducationalContent defaultConfig (toLowerCase ''DNA'')
   \<and> safetyScore (validateContent defaultConfig ''DNA'') = 7 / 10
   \<and> issues (validateContent defaultConfig ''DNA'') = Some [notEducationalIssue]"
  by code_simp

text \<open>
  Claim C7, as amended. For the text \<open>Please give me the answer to my homework due
  tomorrow\<close> and the default configuration, \<open>validateContent\<close> matches a homework pattern
  (\<open>due\s+tomorrow\<close>) and returns the score 0.8, invalid, with the homework issue as the
  only issue and, as the only suggestion, to ask how to approach the problem instead of
  asking for the answer.
\<close>

theorem C7_homework_example:
  "validateContent defaultConfig homeworkExample =
     \<lparr>isValid = False, safetyScore = 8 / 10, issues = Some [homeworkIssue],
      suggestions = Some [homeworkSuggestion]\<rparr>
   \<and> test (seqs [lit ''due'', Plus Space, lit ''tomorrow'']) flags_i homeworkExample
   \<and> detectHomeworkPattern homeworkExample"
  by code_simp

text \<open>
  Claim C7 as stated also has the text match dangerous-content cues. It matches none of
  the dangerous-content patterns.
\<close>

theorem C7_counterexample: "\<not> detectDangerousContent (toLowerCase homeworkExample)"
  by code_simp

section \<open>Claims about the orchestrator\<close>

text \<open>
  Claim C10. \<open>generateResponse\<close> is a total function: its one recursive call is made
  with the provider set to the configured default, and a call whose provider is the
  default does not recurse (the termination proof above, and the second and third
  conjunct here: such a call is the input check followed by one \<open>try\<close> block). For every
  request the call enters the provider \<open>switch\<close> at most twice, and at most once when
  the requested provider is the default.
\<close>

theorem C10_at_most_two_attempts:
  "length (attempts (snd (generateResponse cfg sdk req w))) \<le> length (attempts w) + 2
   \<and> requestedProvider cfg (req\<lparr>provider := Some (defaultAiProvider cfg)\<rparr>) = defaultAiProvider cfg
   \<and> (requestedProvider cfg req = defaultAiProvider cfg \<longrightarrow>
        generateResponse cfg sdk req w
          = (if isValid (validateContent cfg (message req))
             then tryBlock cfg sdk (defaultAiProvider cfg) req (now w) w
             else (Inl (contentBlocked (validateContent cfg (message req))), w))
        \<and> length (attempts (snd (generateResponse cfg sdk req w))) \<le> length (attempts w) + 1)"
proof (intro conjI impI)
  note f = generateResponse_frame [of cfg sdk req w]
  then show "length (attempts (snd (generateResponse cfg sdk req w))) \<le> length (attempts w) + 2"
    by auto
  show "requestedProvider cfg (req\<lparr>provider := Some (defaultAiProvider cfg)\<rparr>) = defaultAiProvider cfg"
    by (rule requestedProvider_fallback)
  assume d: "requestedProvider cfg req = defaultAiProvider cfg"
  show "generateResponse cfg sdk req w
          = (if isValid (validateContent cfg (message req))
             then tryBlock cfg sdk (defaultAiProvider cfg) req (now w) w
             else (Inl (contentBlocked (validateContent cfg (message req))), w))"
    using d by (simp add: generateResponse_default generateResponse_blocked)
  from f d show "length (attempts (snd (generateResponse cfg sdk req w))) \<le> length (attempts w) + 1"
    by auto
qed

theorem C10_witness:
  "requestedProvider defaultConfig (mathRequest None) = defaultAiProvider defaultConfig
   \<and> length (attempts (snd (generateResponse defaultConfig sdkDown (mathRequest None) freshWorld)))
       \<le> length (attempts freshWorld) + 1"
proof -
  have a: "requestedProvider defaultConfig (mathRequest None) = defaultAiProvider defaultConfig"
    by (simp add: requestedProvider_def mathRequest_def)
  show ?thesis
    using a C10_at_most_two_attempts [of defaultConfig sdkDown "mathRequest None" freshWorld]
    by blast
qed

text \<open>
  Claim C2. Take a request whose message passes the input check, so that the provider
  call is made, and let that call fail with \<open>e\<close>. If the requested provider \<open>p\<close> is not
  the default \<open>d\<close>, \<open>generateResponse\<close> runs the \<open>try\<close> block once more, against \<open>d\<close>, and
  returns its outcome: the providers entered are \<open>p\<close> and then \<open>d\<close>, and if the call to
  \<open>d\<close> fails with \<open>e2\<close> the error \<open>e2\<close> is raised. If the requested provider is the
  default, nothing is retried: \<open>e\<close> is raised and the only provider entered is \<open>d\<close>.
\<close>

theorem C2_one_retry_against_default:
  fixes cfg sdk req w
  defines "p \<equiv> requestedProvider cfg req"
      and "d \<equiv> defaultAiProvider cfg"
      and "w1 \<equiv> snd (callProvider cfg sdk (requestedProvider cfg req) req w)"
      and "req' \<equiv> req\<lparr>provider := Some (defaultAiProvider cfg)\<rparr>"
  assumes valid: "isValid (validateContent cfg (message req))"
      and fails: "fst (callProvider cfg sdk (requestedProvider cfg req) req w) = Inl e"
  shows "(p \<noteq> d \<longrightarrow>
            generateResponse cfg sdk req w = tryBlock cfg sdk d req' (now w1) w1
            \<and> attempts (snd (generateResponse cfg sdk req w)) = attempts w @ [p, d]
            \<and> (\<forall>e2. fst (callProvider cfg sdk d req' w1) = Inl e2
                  \<longrightarrow> fst (generateResponse cfg sdk req w) = Inl e2))
         \<and> (p = d \<longrightarrow>
            generateResponse cfg sdk req w = (Inl e, w1) \<and> attempts w1 = attempts w @ [d])"
proof -
  have t: "tryBlock cfg sdk p req (now w) w = (Inl e, w1)"
    unfolding p_def w1_def using fails by (rule tryBlock_call_fails_fst)
  have a1: "attempts w1 = attempts w @ [p]"
    unfolding w1_def p_def by (rule callProvider_attempts)
  show ?thesis
  proof (intro conjI impI allI)
    assume nd: "p \<noteq> d"
    show g: "generateResponse cfg sdk req w = tryBlock cfg sdk d req' (now w1) w1"
      using generateResponse_fallback_run [of cfg req sdk w e w1] valid t nd
      unfolding p_def d_def req'_def by simp
    show "attempts (snd (generateResponse cfg sdk req w)) = attempts w @ [p, d]"
      using g a1 by (simp add: tryBlock_attempts)
    fix e2 assume "fst (callProvider cfg sdk d req' w1) = Inl e2"
    then have "tryBlock cfg sdk d req' (now w1) w1 = (Inl e2, snd (callProvider cfg sdk d req' w1))"
      by (rule tryBlock_call_fails_fst)
    with g show "fst (generateResponse cfg sdk req w) = Inl e2" by simp
  next
    assume "p = d"
    then show "generateResponse cfg sdk req w = (Inl e, w1)"
      using generateResponse_default_fails [of cfg req sdk w e w1] valid t
      unfolding p_def d_def by simp
    from \<open>p = d\<close> a1 show "attempts w1 = attempts w @ [d]" by simp
  qed
qed

theorem C2_witness:
  "isValid (validateContent defaultConfig (message (mathRequest (Some ''anthropic''))))
   \<and> fst (callProvider defaultConfig sdkDown ''anthropic'' (mathRequest (Some ''anthropic'')) freshWorld)
       = Inl (Error ''boom'')
   \<and> attempts (snd (generateResponse defaultConfig sdkDown (mathRequest (Some ''anthropic'')) freshWorld))
       = [''anthropic'', ''openai'']
   \<and> fst (generateResponse defaultConfig sdkDown (mathRequest (Some ''anthropic'')) freshWorld)
       = Inl (Error ''boom'')
   \<and> fst (generateResponse defaultConfig sdkDown (mathRequest None) freshWorld) = Inl (Error ''boom'')
   \<and> attempts (snd (generateResponse defaultConfig sdkDown (mathRequest None) freshWorld)) = [''openai'']"
proof -
  let ?ra = "mathRequest (Some ''anthropic'')"
  let ?rn = "mathRequest None"
  have pa: "requestedProvider defaultConfig ?ra = ''anthropic''"
    by (simp add: requestedProvider_def mathRequest_def)
  have pn: "requestedProvider defaultConfig ?rn = ''openai''"
    by (simp add: requestedProvider_def mathRequest_def defaultConfig_def)
  have d: "defaultAiProvider defaultConfig = ''openai''"
    by (simp add: defaultConfig_def)
  have va: "isValid (validateContent defaultConfig (message ?ra))" by code_simp
  have vn: "isValid (validateContent defaultConfig (message ?rn))" by code_simp
  have fa: "fst (callProvider defaultConfig sdkDown (requestedProvider defaultConfig ?ra) ?ra freshWorld)
            = Inl (Error ''boom'')"
    by code_simp
  have fn: "fst (callProvider defaultConfig sdkDown (requestedProvider defaultConfig ?rn) ?rn freshWorld)
            = Inl (Error ''boom'')"
    by code_simp
  have f2: "fst (callProvider defaultConfig sdkDown (defaultAiProvider defaultConfig)
                  (?ra\<lparr>provider := Some (defaultAiProvider defaultConfig)\<rparr>)
                  (snd (callProvider defaultConfig sdkDown (requestedProvider defaultConfig ?ra) ?ra freshWorld)))
            = Inl (Error ''boom'')"
    by code_simp
  have fw: "attempts freshWorld = []" by (simp add: freshWorld_def)
  have nd: "requestedProvider defaultConfig ?ra \<noteq> defaultAiProvider defaultConfig"
    by (simp add: pa d)
  have eqd: "requestedProvider defaultConfig ?rn = defaultAiProvider defaultConfig"
    by (simp add: pn d)
  note A = C2_one_retry_against_default [OF va fa]
  note N = C2_one_retry_against_default [OF vn fn]
  from A nd have A2: "attempts (snd (generateResponse defaultConfig sdkDown ?ra freshWorld))
      = attempts freshWorld @ [requestedProvider defaultConfig ?ra, defaultAiProvider defaultConfig]"
    by blast
  from A nd f2 have A3: "fst (generateResponse defaultConfig sdkDown ?ra freshWorld) = Inl (Error ''boom'')"
    by blast
  from N eqd have N1: "generateResponse defaultConfig sdkDown ?rn freshWorld
      = (Inl (Error ''boom''),
         snd (callProvider defaultConfig sdkDown (requestedProvider defaultConfig ?rn) ?rn freshWorld))"
    by blast
  from N eqd have N2: "attempts (snd (callProvider defaultConfig sdkDown
        (requestedProvider defaultConfig ?rn) ?rn freshWorld))
      = attempts freshWorld @ [defaultAiProvider defaultConfig]"
    by blast
  have "attempts (snd (generateResponse defaultConfig sdkDown ?ra freshWorld)) = [''anthropic'', ''openai'']"
    using A2 by (simp add: pa d fw)
  moreover have "fst (generateResponse defaultConfig sdkDown ?rn freshWorld) = Inl (Error ''boom'')"
    using N1 by simp
  moreover have "attempts (snd (generateResponse defaultConfig sdkDown ?rn freshWorld)) = [''openai'']"
    using N1 N2 by (simp add: d fw)
  moreover have "fst (callProvider defaultConfig sdkDown ''anthropic'' ?ra freshWorld) = Inl (Error ''boom'')"
    using fa by (simp add: pa)
  ultimately show ?thesis
    using va A3 by blast
qed

text \<open>
  Claim C3, as amended. Take a request whose message passes the input check, for which
  the provider call returns a response \<open>r\<close> whose content, after
  \<open>applyEducationalContext\<close>, fails the output validation. If the requested provider is
  the default, \<open>generateResponse\<close> raises \<open>Generated response failed safety check\<close> and
  no other provider is tried. If it is not the default, the failure is caught like a
  provider error and \<open>generateResponse\<close> falls back: the \<open>try\<close> block is run once more
  against the default provider, and its outcome is returned.
\<close>

theorem C3_rejected_reply:
  fixes cfg sdk req w
  defines "p \<equiv> requestedProvider cfg req"
      and "d \<equiv> defaultAiProvider cfg"
      and "w1 \<equiv> snd (callProvider cfg sdk (requestedProvider cfg req) req w)"
      and "req' \<equiv> req\<lparr>provider := Some (defaultAiProvider cfg)\<rparr>"
  assumes valid: "isValid (validateContent cfg (message req))"
      and reply: "fst (callProvider cfg sdk (requestedProvider cfg req) req w) = Inr r"
      and rejected: "\<not> isValid (validateContent cfg (applyEducationalContext (content r)))"
  shows "(p = d \<longrightarrow>
            generateResponse cfg sdk req w = (Inl (Error ''Generated response failed safety check''), w1)
            \<and> attempts w1 = attempts w @ [d])
         \<and> (p \<noteq> d \<longrightarrow>
            generateResponse cfg sdk req w = tryBlock cfg sdk d req' (now w1) w1
            \<and> attempts (snd (generateResponse cfg sdk req w)) = attempts w @ [p, d])"
proof -
  have t: "tryBlock cfg sdk p req (now w) w = (Inl (Error ''Generated response failed safety check''), w1)"
    unfolding p_def w1_def using reply rejected by (rule tryBlock_reply_rejected_fst)
  have a1: "attempts w1 = attempts w @ [p]"
    unfolding w1_def p_def by (rule callProvider_attempts)
  show ?thesis
  proof (intro conjI impI)
    assume "p = d"
    then show "generateResponse cfg sdk req w = (Inl (Error ''Generated response failed safety check''), w1)"
      using generateResponse_default_fails [of cfg req sdk w _ w1] valid t
      unfolding p_def d_def by simp
    from \<open>p = d\<close> a1 show "attempts w1 = attempts w @ [d]" by simp
  next
    assume nd: "p \<noteq> d"
    show g: "generateResponse cfg sdk req w = tryBlock cfg sdk d req' (now w1) w1"
      using generateResponse_fallback_run [of cfg req sdk w _ w1] valid t nd
      unfolding p_def d_def req'_def by simp
    show "attempts (snd (generateResponse cfg sdk req w)) = attempts w @ [p, d]"
      using g a1 by (simp add: tryBlock_attempts)
  qed
qed

theorem C3_witness:
  "isValid (validateContent defaultConfig (message (mathRequest None)))
   \<and> fst (callProvider defaultConfig sdkGun (requestedProvider defaultConfig (mathRequest None))
            (mathRequest None) freshWorld)
       = Inr \<lparr>content = ''gun'', responseProvider = ''openai'', model = ''gpt-4'', tokens = Some 3,
              responseSafetyScore = 9 / 10, processingTime = 0\<rparr>
   \<and> \<not> isValid (validateContent defaultConfig (applyEducationalContext ''gun''))
   \<and> fst (generateResponse defaultConfig sdkGun (mathRequest None) freshWorld)
       = Inl (Error ''Generated response failed safety check'')
   \<and> attempts (snd (generateResponse defaultConfig sdkGun (mathRequest None) freshWorld)) = [''openai'']"
proof -
  let ?rn = "mathRequest None"
  let ?r = "\<lparr>content = ''gun'', responseProvider = ''openai'', model = ''gpt-4'', tokens = Some 3,
              responseSafetyScore = 9 / 10, processingTime = 0\<rparr>"
  have d: "defaultAiProvider defaultConfig = ''openai''"
    by (simp add: defaultConfig_def)
  have eqd: "requestedProvider defaultConfig ?rn = defaultAiProvider defaultConfig"
    by (simp add: requestedProvider_def mathRequest_def)
  have fw: "attempts freshWorld = []" by (simp add: freshWorld_def)
  have v: "isValid (validateContent defaultConfig (message ?rn))" by code_simp
  have c: "fst (callProvider defaultConfig sdkGun (requestedProvider defaultConfig ?rn) ?rn freshWorld)
           = Inr ?r"
    by code_simp
  have n: "\<not> isValid (validateContent defaultConfig (applyEducationalContext ''gun''))"
    by code_simp
  then have n': "\<not> isValid (validateContent defaultConfig (applyEducationalContext (content ?r)))"
    by simp
  note T = C3_rejected_reply [OF v c n']
  from T eqd have g: "generateResponse defaultConfig sdkGun ?rn freshWorld
      = (Inl (Error ''Generated response failed safety check''),
         snd (callProvider defaultConfig sdkGun (requestedProvider defaultConfig ?rn) ?rn freshWorld))"
    by blast
  from T eqd have a: "attempts (snd (callProvider defaultConfig sdkGun
        (requestedProvider defaultConfig ?rn) ?rn freshWorld))
      = attempts freshWorld @ [defaultAiProvider defaultConfig]"
    by blast
  have "fst (generateResponse defaultConfig sdkGun ?rn freshWorld)
      = Inl (Error ''Generated response failed safety check'')"
    using g by simp
  moreover have "attempts (snd (generateResponse defaultConfig sdkGun ?rn freshWorld)) = [''openai'']"
    using g a by (simp add: d fw)
  ultimately show ?thesis
    using v c n by blast
qed

text \<open>
  Claim C3 as stated excludes the fallback. With the default configuration and the
  provider \<open>anthropic\<close> requested, Anthropic's reply \<open>gun\<close> fails the output validation;
  \<open>generateResponse\<close> then calls OpenAI and returns its reply \<open>math\<close>.
\<close>

theorem C3_counterexample:
  "isValid (validateContent defaultConfig (message (mathRequest (Some ''anthropic''))))
   \<and> fst (callProvider defaultConfig sdkAnthropicGun ''anthropic'' (mathRequest (Some ''anthropic''))
            freshWorld)
       = Inr \<lparr>content = ''gun'', responseProvider = ''anthropic'',
              model = ''claude-3-sonnet-20240229'', tokens = Some 3,
              responseSafetyScore = 9 / 10, processingTime = 0\<rparr>
   \<and> \<not> isValid (validateContent defaultConfig (applyEducationalContext ''gun''))
   \<and> fst (generateResponse defaultConfig sdkAnthropicGun (mathRequest (Some ''anthropic'')) freshWorld)
       = Inr \<lparr>content = ''math'', responseProvider = ''openai'', model = ''gpt-4'',
              tokens = Some 12, responseSafetyScore = 1, processingTime = 7\<rparr>
   \<and> attempts (snd (generateResponse defaultConfig sdkAnthropicGun (mathRequest (Some ''anthropic''))
                      freshWorld))
       = [''anthropic'', ''openai'']"
  by code_simp

section \<open>Claims about the chat pipeline\<close>

text \<open>
  Claim C1, as amended. For every chat request: a response with \<open>success: true\<close> carries
  a reply whose content was validated after generation, with a score of at least
  \<open>config.minSafetyScore\<close>, and that score is the one reported; the call only adds rows to
  the message table, and every assistant row it adds belongs to a successful call and
  holds content with such a score. When a generated reply scores below the minimum and
  the requested provider is the default, the call fails with the HTTP 500 error response
  \<open>Generated response failed safety check\<close> and stores no assistant message; when the
  requested provider is not the default, the orchestrator instead retries against the
  default provider, whose reply is subject to the same check.
\<close>

theorem C1_only_validated_replies_surface:
  fixes cfg sdk uuid body w
  defines "res \<equiv> fst (sendMessage cfg sdk uuid body w)"
      and "w' \<equiv> snd (sendMessage cfg sdk uuid body w)"
      and "w1 \<equiv> w\<lparr>messages := messages w @ [userMessage (currentSessionIdOf uuid body)
                      (bodyMessage body) (validateContent cfg (bodyMessage body))]\<rparr>"
      and "p \<equiv> requestedProvider cfg (aiRequestOf body)"
      and "d \<equiv> defaultAiProvider cfg"
  shows "(success res \<longrightarrow>
           (\<exists>aiResponse. res = replyResponse (currentSessionIdOf uuid body) aiResponse
              \<and> isValid (validateContent cfg (content aiResponse))
              \<and> minSafetyScore cfg \<le> safetyScore (validateContent cfg (content aiResponse))
              \<and> responseSafetyScore aiResponse = safetyScore (validateContent cfg (content aiResponse))))
       \<and> take (length (messages w)) (messages w') = messages w
       \<and> (\<forall>m \<in> set (drop (length (messages w)) (messages w')). role m = ASSISTANT \<longrightarrow>
             success res
             \<and> isValid (validateContent cfg (messageContent m))
             \<and> minSafetyScore cfg \<le> safetyScore (validateContent cfg (messageContent m))
             \<and> messageSafetyScore m = Some (safetyScore (validateContent cfg (messageContent m))))
       \<and> (schemaIssues body = [] \<and> isValid (validateContent cfg (bodyMessage body))
            \<and> fst (callProvider cfg sdk p (aiRequestOf body) w1) = Inr r
            \<and> safetyScore (validateContent cfg (applyEducationalContext (content r))) < minSafetyScore cfg
          \<longrightarrow> (p = d \<longrightarrow>
                 res = \<lparr>status = 500, success = False,
                        payload = Failure ''Generated response failed safety check''\<rparr>
                 \<and> messages w' = messages w1)
              \<and> (p \<noteq> d \<longrightarrow>
                 generateResponse cfg sdk (aiRequestOf body) w1
                   = tryBlock cfg sdk d ((aiRequestOf body)\<lparr>provider := Some d\<rparr>)
                       (now (snd (callProvider cfg sdk p (aiRequestOf body) w1)))
                       (snd (callProvider cfg sdk p (aiRequestOf body) w1))))"
proof -
  let ?sid = "currentSessionIdOf uuid body"
  let ?v = "validateContent cfg (bodyMessage body)"
  have main: "(success res \<longrightarrow>
           (\<exists>aiResponse. res = replyResponse ?sid aiResponse
              \<and> isValid (validateContent cfg (content aiResponse))
              \<and> minSafetyScore cfg \<le> safetyScore (validateContent cfg (content aiResponse))
              \<and> responseSafetyScore aiResponse = safetyScore (validateContent cfg (content aiResponse))))
       \<and> take (length (messages w)) (messages w') = messages w
       \<and> (\<forall>m \<in> set (drop (length (messages w)) (messages w')). role m = ASSISTANT \<longrightarrow>
             success res
             \<and> isValid (validateContent cfg (messageContent m))
             \<and> minSafetyScore cfg \<le> safetyScore (validateContent cfg (messageContent m))
             \<and> messageSafetyScore m = Some (safetyScore (validateContent cfg (messageContent m))))"
  proof (cases "schemaIssues body = []")
    case False
    then show ?thesis
      unfolding res_def w'_def by (simp add: sendMessage_schema)
  next
    case schema: True
    show ?thesis
    proof (cases "isValid ?v")
      case False
      with schema show ?thesis
        unfolding res_def w'_def by (simp add: sendMessage_blocked blockedResponse_def)
    next
      case valid: True
      obtain x w2 where g: "generateResponse cfg sdk (aiRequestOf body) w1 = (x, w2)"
        by (cases "generateResponse cfg sdk (aiRequestOf body) w1")
      have m2: "messages w2 = messages w1"
        using generateResponse_frame [of cfg sdk "aiRequestOf body" w1] g by simp
      have m1: "messages w1 = messages w @ [userMessage ?sid (bodyMessage body) ?v]"
        by (simp add: w1_def)
      show ?thesis
      proof (cases x)
        case (Inl e)
        with schema valid g have "sendMessage cfg sdk uuid body w = (errorResponse e, w2)"
          unfolding w1_def by (simp add: sendMessage_failed)
        then show ?thesis
          unfolding res_def w'_def
          by (simp add: errorResponse_not_success m2 m1 userMessage_def)
      next
        case (Inr ai)
        with g have gi: "generateResponse cfg sdk (aiRequestOf body) w1 = (Inr ai, w2)" by simp
        note ok = generateResponse_Inr [OF gi]
        have le: "minSafetyScore cfg \<le> safetyScore (validateContent cfg (content ai))"
          using ok by (simp only: validateContent_isValid)
        from schema valid gi have sm: "sendMessage cfg sdk uuid body w
           = (replyResponse ?sid ai,
              upsertSession ?sid (bodyMessage body) (responseProvider ai)
                (w2\<lparr>messages := messages w2 @ [assistantMessage ?sid ai]\<rparr>))"
          unfolding w1_def by (simp add: sendMessage_replied)
        have ms: "messages w' = messages w @ [userMessage ?sid (bodyMessage body) ?v, assistantMessage ?sid ai]"
          unfolding w'_def by (simp add: sm upsertSession_frame m2 m1)
        have r: "res = replyResponse ?sid ai"
          unfolding res_def by (simp add: sm)
        have s: "success res" by (simp add: r replyResponse_def)
        show ?thesis
          using ok le r s
          by (auto simp: ms userMessage_def assistantMessage_def)
      qed
    qed
  qed
  have rest: "(p = d \<longrightarrow>
                 res = \<lparr>status = 500, success = False,
                        payload = Failure ''Generated response failed safety check''\<rparr>
                 \<and> messages w' = messages w1)
              \<and> (p \<noteq> d \<longrightarrow>
                 generateResponse cfg sdk (aiRequestOf body) w1
                   = tryBlock cfg sdk d ((aiRequestOf body)\<lparr>provider := Some d\<rparr>)
                       (now (snd (callProvider cfg sdk p (aiRequestOf body) w1)))
                       (snd (callProvider cfg sdk p (aiRequestOf body) w1)))"
    if h: "schemaIssues body = [] \<and> isValid ?v
            \<and> fst (callProvider cfg sdk p (aiRequestOf body) w1) = Inr r
            \<and> safetyScore (validateContent cfg (applyEducationalContext (content r))) < minSafetyScore cfg"
  proof -
    let ?w2 = "snd (callProvider cfg sdk p (aiRequestOf body) w1)"
    from h have schema: "schemaIssues body = []" and valid: "isValid ?v"
      and c: "fst (callProvider cfg sdk p (aiRequestOf body) w1) = Inr r"
      and low: "safetyScore (validateContent cfg (applyEducationalContext (content r))) < minSafetyScore cfg"
      by blast+
    have valid': "isValid (validateContent cfg (message (aiRequestOf body)))"
      using valid by (simp add: aiRequestOf_def)
    have rej: "\<not> isValid (validateContent cfg (applyEducationalContext (content r)))"
      using low by (rule score_below_minimum_invalid)
    have t: "tryBlock cfg sdk p (aiRequestOf body) (now w1) w1
             = (Inl (Error ''Generated response failed safety check''), ?w2)"
      using c rej by (rule tryBlock_reply_rejected_fst)
    show ?thesis
    proof (intro conjI impI)
      assume pd: "p = d"
      have g: "generateResponse cfg sdk (aiRequestOf body) w1
               = (Inl (Error ''Generated response failed safety check''), ?w2)"
        using generateResponse_default_fails [of cfg "aiRequestOf body" sdk w1 _ ?w2] valid' t pd
        unfolding p_def d_def by simp
      then have sm: "sendMessage cfg sdk uuid body w
          = (errorResponse (Error ''Generated response failed safety check''), ?w2)"
        using schema valid unfolding w1_def by (simp add: sendMessage_failed)
      show "res = \<lparr>status = 500, success = False,
                   payload = Failure ''Generated response failed safety check''\<rparr>"
        unfolding res_def by (simp add: sm errorResponse_def)
      have "messages ?w2 = messages w1"
        using generateResponse_frame [of cfg sdk "aiRequestOf body" w1] g by simp
      then show "messages w' = messages w1"
        unfolding w'_def by (simp add: sm)
    next
      assume nd: "p \<noteq> d"
      show "generateResponse cfg sdk (aiRequestOf body) w1
              = tryBlock cfg sdk d ((aiRequestOf body)\<lparr>provider := Some d\<rparr>) (now ?w2) ?w2"
        using generateResponse_fallback_run [of cfg "aiRequestOf body" sdk w1 _ ?w2] valid' t nd
        unfolding p_def d_def by simp
    qed
  qed
  from main rest show ?thesis by blast
qed

theorem C1_witness:
  "success (fst (sendMessage defaultConfig sdkMath ''s1'' (chatBody ''math'' None) freshWorld))
   \<and> (\<exists>aiResponse.
         fst (sendMessage defaultConfig sdkMath ''s1'' (chatBody ''math'' None) freshWorld)
           = replyResponse (currentSessionIdOf ''s1'' (chatBody ''math'' None)) aiResponse
         \<and> minSafetyScore defaultConfig \<le> safetyScore (validateContent defaultConfig (content aiResponse)))
   \<and> assistantMessage ''s1'' \<lparr>content = ''math'', responseProvider = ''openai'', model = ''gpt-4'',
         tokens = Some 12, responseSafetyScore = 1, processingTime = 7\<rparr>
       \<in> set (drop (length (messages freshWorld))
                (messages (snd (sendMessage defaultConfig sdkMath ''s1'' (chatBody ''math'' None) freshWorld))))
   \<and> minSafetyScore defaultConfig \<le> safetyScore (validateContent defaultConfig ''math'')
   \<and> schemaIssues (chatBody ''math'' None) = []
   \<and> isValid (validateContent defaultConfig (bodyMessage (chatBody ''math'' None)))
   \<and> safetyScore (validateContent defaultConfig (applyEducationalContext ''gun'')) < minSafetyScore defaultConfig
   \<and> fst (sendMessage defaultConfig sdkGun ''s1'' (chatBody ''math'' None) freshWorld)
       = \<lparr>status = 500, success = False, payload = Failure ''Generated response failed safety check''\<rparr>"
proof -
  let ?b = "chatBody ''math'' None"
  let ?ai = "\<lparr>content = ''math'', responseProvider = ''openai'', model = ''gpt-4'',
         tokens = Some 12, responseSafetyScore = 1, processingTime = 7\<rparr>"
  let ?gun = "\<lparr>content = ''gun'', responseProvider = ''openai'', model = ''gpt-4'', tokens = Some 3,
              responseSafetyScore = 9 / 10, processingTime = 0\<rparr>"
  let ?w1 = "freshWorld\<lparr>messages := messages freshWorld @ [userMessage (currentSessionIdOf ''s1'' ?b)
                      (bodyMessage ?b) (validateContent defaultConfig (bodyMessage ?b))]\<rparr>"
  have s: "success (fst (sendMessage defaultConfig sdkMath ''s1'' ?b freshWorld))"
    by code_simp
  have m: "assistantMessage ''s1'' ?ai
       \<in> set (drop (length (messages freshWorld))
                (messages (snd (sendMessage defaultConfig sdkMath ''s1'' ?b freshWorld))))"
    by code_simp
  have ra: "role (assistantMessage ''s1'' ?ai) = ASSISTANT"
    and ca: "messageContent (assistantMessage ''s1'' ?ai) = ''math''"
    by (simp_all add: assistantMessage_def)
  have sch: "schemaIssues ?b = []" by code_simp
  have v: "isValid (validateContent defaultConfig (bodyMessage ?b))" by code_simp
  have pd: "requestedProvider defaultConfig (aiRequestOf ?b) = defaultAiProvider defaultConfig"
    by (simp add: requestedProvider_def aiRequestOf_def chatBody_def)
  have c: "fst (callProvider defaultConfig sdkGun (requestedProvider defaultConfig (aiRequestOf ?b))
                 (aiRequestOf ?b) ?w1) = Inr ?gun"
    by code_simp
  have low: "safetyScore (validateContent defaultConfig (applyEducationalContext ''gun''))
             < minSafetyScore defaultConfig"
    by code_simp
  then have low': "safetyScore (validateContent defaultConfig (applyEducationalContext (content ?gun)))
             < minSafetyScore defaultConfig"
    by simp
  note A = C1_only_validated_replies_surface [where cfg = defaultConfig and sdk = sdkMath
      and uuid = "''s1''" and body = ?b and w = freshWorld and r = ?gun]
  note B = C1_only_validated_replies_surface [where cfg = defaultConfig and sdk = sdkGun
      and uuid = "''s1''" and body = ?b and w = freshWorld and r = ?gun]
  from A s have A1: "\<exists>aiResponse.
         fst (sendMessage defaultConfig sdkMath ''s1'' ?b freshWorld)
           = replyResponse (currentSessionIdOf ''s1'' ?b) aiResponse
         \<and> minSafetyScore defaultConfig \<le> safetyScore (validateContent defaultConfig (content aiResponse))"
    by blast
  from A m ra have "minSafetyScore defaultConfig
      \<le> safetyScore (validateContent defaultConfig (messageContent (assistantMessage ''s1'' ?ai)))"
    by blast
  then have A2: "minSafetyScore defaultConfig \<le> safetyScore (validateContent defaultConfig ''math'')"
    by (simp only: ca)
  from B sch v c low' pd have B1: "fst (sendMessage defaultConfig sdkGun ''s1'' ?b freshWorld)
       = \<lparr>status = 500, success = False, payload = Failure ''Generated response failed safety check''\<rparr>"
    by blast
  show ?thesis
    using s A1 m A2 sch v low B1 by blast
qed

text \<open>
  Claim C1 as stated lets the call fail whenever a generated reply scores below the
  minimum. With the default configuration and the provider \<open>google\<close> requested, Google's
  reply \<open>harmful\<close> scores 0.2, below 0.7; it is neither stored nor returned, but the call
  does not fail: it answers with OpenAI's reply \<open>math\<close> and \<open>success: true\<close>.
\<close>

theorem C1_counterexample:
  "fst (callProvider defaultConfig sdkGoogleHarmful ''google''
          (aiRequestOf (chatBody ''math'' (Some ''google'')))
          (freshWorld\<lparr>messages := [userMessage ''s1'' ''math'' (validateContent defaultConfig ''math'')]\<rparr>))
     = Inr \<lparr>content = ''harmful'', responseProvider = ''google'', model = ''gemini-pro'',
            tokens = None, responseSafetyScore = 9 / 10, processingTime = 0\<rparr>
   \<and> safetyScore (validateContent defaultConfig (applyEducationalContext ''harmful'')) = 2 / 10
   \<and> minSafetyScore defaultConfig = 7 / 10
   \<and> fst (sendMessage defaultConfig sdkGoogleHarmful ''s1'' (chatBody ''math'' (Some ''google'')) freshWorld)
     = \<lparr>status = 200, success = True,
        payload = Reply ''math''
          \<lparr>metaProvider = ''openai'', metaModel = ''gpt-4'', metaTokens = Some 12,
           metaSafetyScore = 1, metaProcessingTime = 7\<rparr> ''s1''\<rparr>
   \<and> attempts (snd (sendMessage defaultConfig sdkGoogleHarmful ''s1'' (chatBody ''math'' (Some ''google''))
                      freshWorld))
     = [''google'', ''openai'']"
  by code_simp

text \<open>
  Claim C8, as amended. For every chat request whose message fails safety validation,
  \<open>sendMessage\<close> answers with HTTP 400 and \<open>success: false\<close> and leaves the state as it
  was: no provider is called and no message is stored. When the request passes the
  request schema, the response is the blocked-content error with the recorded issues,
  suggestions and score; when it does not (an empty message, or one of more than 2000
  code units), the response is the schema error instead. \<open>generateResponse\<close> itself
  raises \<open>Content blocked\<close> with the issues for such a message, without a provider call.
\<close>

theorem C8_invalid_input_is_refused:
  assumes "\<not> isValid (validateContent cfg (bodyMessage body))"
  shows "status (fst (sendMessage cfg sdk uuid body w)) = 400
       \<and> \<not> success (fst (sendMessage cfg sdk uuid body w))
       \<and> snd (sendMessage cfg sdk uuid body w) = w
       \<and> (schemaIssues body = [] \<longrightarrow>
            fst (sendMessage cfg sdk uuid body w)
              = \<lparr>status = 400, success = False,
                 payload = Blocked (issues (validateContent cfg (bodyMessage body)))
                             (suggestions (validateContent cfg (bodyMessage body)))
                             (safetyScore (validateContent cfg (bodyMessage body)))\<rparr>)
       \<and> (schemaIssues body \<noteq> [] \<longrightarrow>
            fst (sendMessage cfg sdk uuid body w)
              = \<lparr>status = 400, success = False, payload = InvalidRequest (schemaIssues body)\<rparr>)
       \<and> generateResponse cfg sdk (aiRequestOf body) w
           = (Inl (contentBlocked (validateContent cfg (bodyMessage body))), w)"
proof -
  have g: "generateResponse cfg sdk (aiRequestOf body) w
           = (Inl (contentBlocked (validateContent cfg (bodyMessage body))), w)"
    using generateResponse_blocked [of cfg "aiRequestOf body" sdk w] assms
    by (simp add: aiRequestOf_def)
  show ?thesis
  proof (cases "schemaIssues body = []")
    case True
    with assms have "sendMessage cfg sdk uuid body w
        = (blockedResponse (validateContent cfg (bodyMessage body)), w)"
      by (simp add: sendMessage_blocked)
    with True g show ?thesis by (simp add: blockedResponse_def)
  next
    case False
    then have "sendMessage cfg sdk uuid body w
        = (\<lparr>status = 400, success = False, payload = InvalidRequest (schemaIssues body)\<rparr>, w)"
      by (rule sendMessage_schema)
    with False g show ?thesis by simp
  qed
qed

theorem C8_witness:
  "\<not> isValid (validateContent defaultConfig (bodyMessage (chatBody ''gun'' None)))
   \<and> schemaIssues (chatBody ''gun'' None) = []
   \<and> fst (sendMessage defaultConfig sdkMath ''s1'' (chatBody ''gun'' None) freshWorld)
       = \<lparr>status = 400, success = False,
          payload = Blocked (Some [notEducationalIssue, dangerousIssue])
                      (Some [notEducationalSuggestion, dangerousSuggestion]) 0\<rparr>
   \<and> attempts (snd (sendMessage defaultConfig sdkMath ''s1'' (chatBody ''gun'' None) freshWorld)) = []
   \<and> messages (snd (sendMessage defaultConfig sdkMath ''s1'' (chatBody ''gun'' None) freshWorld)) = []"
proof -
  let ?b = "chatBody ''gun'' None"
  have n: "\<not> isValid (validateContent defaultConfig (bodyMessage ?b))" by code_simp
  have sch: "schemaIssues ?b = []" by code_simp
  have i: "issues (validateContent defaultConfig (bodyMessage ?b)) = Some [notEducationalIssue, dangerousIssue]"
    by code_simp
  have su: "suggestions (validateContent defaultConfig (bodyMessage ?b))
            = Some [notEducationalSuggestion, dangerousSuggestion]"
    by code_simp
  have sc: "safetyScore (validateContent defaultConfig (bodyMessage ?b)) = 0"
    by code_simp
  note T = C8_invalid_input_is_refused [OF n, of sdkMath "''s1''" freshWorld]
  from T sch have r: "fst (sendMessage defaultConfig sdkMath ''s1'' ?b freshWorld)
      = \<lparr>status = 400, success = False,
         payload = Blocked (issues (validateContent defaultConfig (bodyMessage ?b)))
                     (suggestions (validateContent defaultConfig (bodyMessage ?b)))
                     (safetyScore (validateContent defaultConfig (bodyMessage ?b)))\<rparr>"
    by blast
  from T have w: "snd (sendMessage defaultConfig sdkMath ''s1'' ?b freshWorld) = freshWorld"
    by blast
  have "fst (sendMessage defaultConfig sdkMath ''s1'' ?b freshWorld)
       = \<lparr>status = 400, success = False,
          payload = Blocked (Some [notEducationalIssue, dangerousIssue])
                      (Some [notEducationalSuggestion, dangerousSuggestion]) 0\<rparr>"
    using r by (simp only: i su sc)
  moreover have "attempts freshWorld = []" and "messages freshWorld = []"
    by (simp_all add: freshWorld_def)
  then have "attempts (snd (sendMessage defaultConfig sdkMath ''s1'' ?b freshWorld)) = []"
    and "messages (snd (sendMessage defaultConfig sdkMath ''s1'' ?b freshWorld)) = []"
    by (simp_all only: w)
  ultimately show ?thesis
    using n sch by blast
qed

text \<open>
  Claim C8 as stated promises the blocked-content error for every such request. The
  empty message fails safety validation (it is not educational), but the request is
  refused by the schema first, and the response carries the schema error, not the
  issue.
\<close>

theorem C8_counterexample:
  "\<not> isValid (validateContent defaultConfig (bodyMessage (chatBody [] None)))
   \<and> issues (validateContent defaultConfig (bodyMessage (chatBody [] None))) = Some [notEducationalIssue]
   \<and> fst (sendMessage defaultConfig sdkMath ''s1'' (chatBody [] None) freshWorld)
       = \<lparr>status = 400, success = False, payload = InvalidRequest [''message'']\<rparr>"
  by code_simp

end
